theory Spec2Isabelle
  imports Main "HOL-Library.Word" "HOL-Library.Monad_Syntax"
begin

unbundle bit_operations_syntax

section \<open>Scalar types and constants\<close>

text \<open>
  The engine of TitanLOB (\<^verbatim>\<open>order_book.cpp\<close>, and the class declaration that
  \<^verbatim>\<open>gateway.h\<close> carries from line 282 on) works on fixed-width integers. They are
  modelled as machine words: \<^verbatim>\<open>int64_t\<close> and \<^verbatim>\<open>uint64_t\<close> as 64-bit words,
  \<^verbatim>\<open>uint32_t\<close> as 32-bit words, \<^verbatim>\<open>uint8_t\<close> as 8-bit words. Arithmetic wraps
  around (two's complement, which is what the target computes where C++ leaves signed
  overflow undefined); the comparisons of \<^verbatim>\<open>int64_t\<close> values are the signed ones
  (\<open><s\<close>, \<open>\<le>s\<close>), those of \<^verbatim>\<open>size_t\<close> values are made on \<open>nat\<close>.
\<close>

type_synonym int64 = "64 word"
type_synonym uint64 = "64 word"
type_synonym uint32 = "32 word"
type_synonym uint8 = "8 word"

definition INT64_MAX :: int64 where
  "INT64_MAX = 0x7FFFFFFFFFFFFFFF"

definition NULL_INDEX :: uint32 where
  "NULL_INDEX = 0xFFFFFFFF"

definition PRICE_OFFSET :: int64 where
  "PRICE_OFFSET = 0"

definition MAX_PRICE_LEVELS :: nat where
  "MAX_PRICE_LEVELS = 33554432"

definition BITMAP_WORDS :: nat where
  "BITMAP_WORDS = MAX_PRICE_LEVELS div 64"

definition OUTPUT_BUFFER_SIZE :: nat where
  "OUTPUT_BUFFER_SIZE = 2 ^ 20"

definition BATCH_SIZE :: nat where
  "BATCH_SIZE = 64"

text \<open>\<^verbatim>\<open>std::min\<close> on two \<^verbatim>\<open>int64_t\<close>: the second argument when it is smaller.\<close>

definition smin :: "int64 \<Rightarrow> int64 \<Rightarrow> int64" where
  "smin a b = (if b <s a then b else a)"

datatype TimeInForce = GTC | IOC | FOK | AON

text \<open>
  What the C++ leaves undefined and the engine can reach with well-typed arguments:
  \<^verbatim>\<open>free_indices_.back()\<close> on an empty vector (a pool built with capacity 0 cannot
  grow), and \<^verbatim>\<open>order_index_[order_id]\<close> beyond the vector after
  \<^verbatim>\<open>ensure_capacity\<close> (the id whose successor wraps to 0). Exhaustion of the host
  memory is not modelled.
\<close>

datatype fault = PoolExhausted | IndexOverrun

section \<open>Order records and the object pool\<close>

record Order =
  order_id :: uint64
  price :: int64
  quantity :: int64
  hidden_quantity :: int64
  peak_size :: int64
  o_next :: uint32
  o_prev :: uint32
  user_id_low :: uint32
  flags :: uint8

text \<open>The value-initialised record \<^verbatim>\<open>Order{}\<close>.\<close>

definition Order_zero :: Order where
  "Order_zero = \<lparr>order_id = 0, price = 0, quantity = 0, hidden_quantity = 0, peak_size = 0,
     o_next = 0, o_prev = 0, user_id_low = 0, flags = 0\<rparr>"

definition is_iceberg :: "Order \<Rightarrow> bool" where
  "is_iceberg o' = (0 <s peak_size o')"

definition total_quantity :: "Order \<Rightarrow> int64" where
  "total_quantity o' = quantity o' + hidden_quantity o'"

definition is_buy :: "Order \<Rightarrow> bool" where
  "is_buy o' = (flags o' AND 0x01 \<noteq> 0)"

definition is_aon :: "Order \<Rightarrow> bool" where
  "is_aon o' = (flags o' AND 0x02 \<noteq> 0)"

definition set_buy :: "bool \<Rightarrow> uint8 \<Rightarrow> uint8" where
  "set_buy v f = (if v then f OR 0x01 else f AND NOT 0x01)"

definition set_aon :: "bool \<Rightarrow> uint8 \<Rightarrow> uint8" where
  "set_aon v f = (if v then f OR 0x02 else f AND NOT 0x02)"

text \<open>
  \<^verbatim>\<open>ObjectPool<Order>\<close>: the slab \<^verbatim>\<open>pool_\<close> is a store from 32-bit indices to
  records, with its size kept beside it; \<^verbatim>\<open>free_indices_\<close> is a stack whose top
  (\<^verbatim>\<open>back()\<close>) is the last element of the list.
\<close>

record ObjectPool =
  pool :: "uint32 \<Rightarrow> Order"
  pool_size :: nat
  free_indices :: "uint32 list"

definition new_pool :: "nat \<Rightarrow> ObjectPool" where
  "new_pool capacity = \<lparr>pool = (\<lambda>_. Order_zero), pool_size = capacity,
     free_indices = map of_nat (rev [0..<capacity])\<rparr>"

definition grow :: "ObjectPool \<Rightarrow> ObjectPool" where
  "grow p =
     (let old_size = pool_size p;
          new_size = (old_size * 2) mod 2 ^ 64
      in \<lparr>pool = (\<lambda>i. if old_size \<le> unat i \<and> unat i < new_size then Order_zero else pool p i),
          pool_size = new_size,
          free_indices = free_indices p @ map of_nat (rev [old_size..<new_size])\<rparr>)"

definition allocate :: "ObjectPool \<Rightarrow> fault + (uint32 \<times> ObjectPool)" where
  "allocate p =
     (let p1 = (if free_indices p = [] then grow p else p)
      in if free_indices p1 = [] then Inl PoolExhausted
         else Inr (last (free_indices p1), p1\<lparr>free_indices := butlast (free_indices p1)\<rparr>))"

definition pool_free :: "uint32 \<Rightarrow> ObjectPool \<Rightarrow> ObjectPool" where
  "pool_free idx p = p\<lparr>pool := (pool p)(idx := Order_zero),
                        free_indices := free_indices p @ [idx]\<rparr>"

definition pool_reset :: "ObjectPool \<Rightarrow> ObjectPool" where
  "pool_reset p = p\<lparr>free_indices := map of_nat (rev [0..<pool_size p])\<rparr>"

section \<open>Price levels, bitmaps, order index, output\<close>

record PriceLevel =
  head :: uint32
  tail :: uint32
  count :: uint32
  total_volume :: int64
  total_visible_volume :: int64
  total_aon_volume :: int64
  total_non_aon_volume :: int64

definition level_reset :: PriceLevel where
  "level_reset = \<lparr>head = NULL_INDEX, tail = NULL_INDEX, count = 0, total_volume = 0,
     total_visible_volume = 0, total_aon_volume = 0, total_non_aon_volume = 0\<rparr>"

definition level_empty :: "PriceLevel \<Rightarrow> bool" where
  "level_empty l = (head l = NULL_INDEX)"

record OrderLocation =
  loc_price :: int64
  pool_idx :: uint32
  loc_flags :: uint8

definition OrderLocation_zero :: OrderLocation where
  "OrderLocation_zero = \<lparr>loc_price = 0, pool_idx = 0, loc_flags = 0\<rparr>"

definition loc_is_buy :: "OrderLocation \<Rightarrow> bool" where
  "loc_is_buy l = (loc_flags l AND 0x01 \<noteq> 0)"

definition loc_is_active :: "OrderLocation \<Rightarrow> bool" where
  "loc_is_active l = (loc_flags l AND 0x02 \<noteq> 0)"

definition set_active :: "bool \<Rightarrow> uint8 \<Rightarrow> uint8" where
  "set_active v f = (if v then f OR 0x02 else f AND NOT 0x02)"

text \<open>
  \<^verbatim>\<open>OutputMsg\<close> is a tagged union; the first field of each constructor is the
  timestamp, the side of an accept is \<open>True\<close> for \<^verbatim>\<open>Side::BUY\<close>.
\<close>

datatype OutputMsg =
    Trade uint64 uint64 uint64 int64 int64
  | OrderAccepted uint64 uint64 bool int64 int64
  | OrderCancelled uint64 uint64 int64

text \<open>
  The book. Arrays indexed by \<^verbatim>\<open>size_t\<close> are functions on \<open>nat\<close>; the vector
  \<^verbatim>\<open>order_index_\<close> is such a function with its size. \<open>batch_buffer\<close> holds the
  \<^verbatim>\<open>batch_count_\<close> staged messages, \<open>ring\<close> the messages pushed to the output ring
  and not yet taken by the consumer (which runs on another thread and is not part of this
  model). \<open>cross_reports\<close> collects the pairs printed by the
  \<^verbatim>\<open>[CRITICAL] CROSS DETECTED!\<close> diagnostic.
\<close>

record Book =
  bid_levels :: "nat \<Rightarrow> PriceLevel"
  ask_levels :: "nat \<Rightarrow> PriceLevel"
  bid_bitmap :: "nat \<Rightarrow> uint64"
  ask_bitmap :: "nat \<Rightarrow> uint64"
  best_bid :: int64
  best_ask :: int64
  best_bid_word :: int64
  best_ask_word :: int64
  bid_level_count :: uint32
  ask_level_count :: uint32
  order_pool :: ObjectPool
  order_index :: "nat \<Rightarrow> OrderLocation"
  order_index_size :: nat
  active_order_count :: uint64
  max_order_id :: uint64
  use_ring_buffer :: bool
  emit_accepts :: bool
  emit_cancels :: bool
  batch_buffer :: "OutputMsg list"
  ring :: "OutputMsg list"
  current_timestamp :: uint64
  trades_executed :: uint64
  messages_dropped :: uint64
  cross_reports :: "(int64 \<times> int64) list"

definition INITIAL_ORDER_CAPACITY :: nat where
  "INITIAL_ORDER_CAPACITY = 5000000"

text \<open>The constructor \<^verbatim>\<open>OptimizedOrderBook(order_capacity)\<close>.\<close>

definition new_book :: "nat \<Rightarrow> Book" where
  "new_book order_capacity =
     \<lparr>bid_levels = (\<lambda>_. level_reset), ask_levels = (\<lambda>_. level_reset),
      bid_bitmap = (\<lambda>_. 0), ask_bitmap = (\<lambda>_. 0),
      best_bid = - 1, best_ask = INT64_MAX, best_bid_word = - 1, best_ask_word = 0,
      bid_level_count = 0, ask_level_count = 0,
      order_pool = new_pool order_capacity,
      order_index = (\<lambda>_. OrderLocation_zero), order_index_size = INITIAL_ORDER_CAPACITY,
      active_order_count = 0, max_order_id = 0,
      use_ring_buffer = True, emit_accepts = True, emit_cancels = True,
      batch_buffer = [], ring = [], current_timestamp = 0,
      trades_executed = 0, messages_dropped = 0, cross_reports = []\<rparr>"

definition price_to_index :: "int64 \<Rightarrow> nat" where
  "price_to_index p = unat (p - PRICE_OFFSET)"

definition index_to_price :: "nat \<Rightarrow> int64" where
  "index_to_price idx = of_nat idx + PRICE_OFFSET"

text \<open>
  A \<^verbatim>\<open>PriceLevel&\<close> into \<^verbatim>\<open>bid_levels_\<close> or \<^verbatim>\<open>ask_levels_\<close> is the pair of the
  side (\<open>True\<close> for the bids) and the index.
\<close>

definition get_level :: "bool \<Rightarrow> nat \<Rightarrow> Book \<Rightarrow> PriceLevel" where
  "get_level bid i s = (if bid then bid_levels s i else ask_levels s i)"

definition set_level :: "bool \<Rightarrow> nat \<Rightarrow> PriceLevel \<Rightarrow> Book \<Rightarrow> Book" where
  "set_level bid i l s =
     (if bid then s\<lparr>bid_levels := (bid_levels s)(i := l)\<rparr>
      else s\<lparr>ask_levels := (ask_levels s)(i := l)\<rparr>)"

definition order_at :: "Book \<Rightarrow> uint32 \<Rightarrow> Order" where
  "order_at s idx = pool (order_pool s) idx"

definition set_order :: "uint32 \<Rightarrow> Order \<Rightarrow> Book \<Rightarrow> Book" where
  "set_order idx o' s = s\<lparr>order_pool := (order_pool s)\<lparr>pool := (pool (order_pool s))(idx := o')\<rparr>\<rparr>"

section \<open>Intrusive FIFO and level volumes\<close>

text \<open>
  \<^verbatim>\<open>list_push_back\<close> and \<^verbatim>\<open>list_remove\<close> write through references into the pool and
  the level; the writes are made in the order of the source, so that aliased indices behave
  as they do there.
\<close>

definition list_push_back :: "bool \<Rightarrow> nat \<Rightarrow> uint32 \<Rightarrow> Book \<Rightarrow> Book" where
  "list_push_back bid li idx s =
     (let level = get_level bid li s;
          s1 = set_order idx ((order_at s idx)\<lparr>o_next := NULL_INDEX, o_prev := tail level\<rparr>) s;
          s2 = (if tail level \<noteq> NULL_INDEX
                then set_order (tail level) ((order_at s1 (tail level))\<lparr>o_next := idx\<rparr>) s1
                else set_level bid li (level\<lparr>head := idx\<rparr>) s1);
          level2 = get_level bid li s2
      in set_level bid li (level2\<lparr>tail := idx, count := count level2 + 1\<rparr>) s2)"

definition list_remove :: "bool \<Rightarrow> nat \<Rightarrow> uint32 \<Rightarrow> Book \<Rightarrow> Book" where
  "list_remove bid li idx s =
     (let node_prev = o_prev (order_at s idx);
          s1 = (if node_prev \<noteq> NULL_INDEX
                then set_order node_prev ((order_at s node_prev)\<lparr>o_next := o_next (order_at s idx)\<rparr>) s
                else set_level bid li ((get_level bid li s)\<lparr>head := o_next (order_at s idx)\<rparr>) s);
          node_next = o_next (order_at s1 idx);
          s2 = (if node_next \<noteq> NULL_INDEX
                then set_order node_next ((order_at s1 node_next)\<lparr>o_prev := o_prev (order_at s1 idx)\<rparr>) s1
                else set_level bid li ((get_level bid li s1)\<lparr>tail := o_prev (order_at s1 idx)\<rparr>) s1);
          s3 = set_order idx ((order_at s2 idx)\<lparr>o_next := NULL_INDEX, o_prev := NULL_INDEX\<rparr>) s2;
          level3 = get_level bid li s3
      in set_level bid li (level3\<lparr>count := count level3 - 1\<rparr>) s3)"

definition add_to_level_volume :: "bool \<Rightarrow> nat \<Rightarrow> Order \<Rightarrow> Book \<Rightarrow> Book" where
  "add_to_level_volume bid li order s =
     (let level = get_level bid li s;
          total = quantity order + hidden_quantity order;
          level1 = level\<lparr>total_volume := total_volume level + total,
                         total_visible_volume := total_visible_volume level + quantity order\<rparr>
      in set_level bid li
           (if is_aon order then level1\<lparr>total_aon_volume := total_aon_volume level1 + total\<rparr>
            else level1\<lparr>total_non_aon_volume := total_non_aon_volume level1 + total\<rparr>) s)"

definition remove_from_level_volume :: "bool \<Rightarrow> nat \<Rightarrow> Order \<Rightarrow> Book \<Rightarrow> Book" where
  "remove_from_level_volume bid li order s =
     (let level = get_level bid li s;
          total = quantity order + hidden_quantity order;
          level1 = level\<lparr>total_volume := total_volume level - total,
                         total_visible_volume := total_visible_volume level - quantity order\<rparr>
      in set_level bid li
           (if is_aon order then level1\<lparr>total_aon_volume := total_aon_volume level1 - total\<rparr>
            else level1\<lparr>total_non_aon_volume := total_non_aon_volume level1 - total\<rparr>) s)"

definition adjust_level_volume :: "bool \<Rightarrow> nat \<Rightarrow> int64 \<Rightarrow> int64 \<Rightarrow> bool \<Rightarrow> Book \<Rightarrow> Book" where
  "adjust_level_volume bid li visible_delta hidden_delta aon s =
     (let level = get_level bid li s;
          level1 = level\<lparr>total_volume := total_volume level + (visible_delta + hidden_delta),
                         total_visible_volume := total_visible_volume level + visible_delta\<rparr>
      in set_level bid li
           (if aon
            then level1\<lparr>total_aon_volume := total_aon_volume level1 + (visible_delta + hidden_delta)\<rparr>
            else level1\<lparr>total_non_aon_volume :=
                          total_non_aon_volume level1 + (visible_delta + hidden_delta)\<rparr>) s)"

section \<open>Side bitmaps and best-price tracking\<close>

text \<open>
  \<^verbatim>\<open>__builtin_ctzll\<close> and \<^verbatim>\<open>__builtin_clzll\<close>, which the source calls on non-zero
  words only: the number of zero bits below the lowest, and above the highest, set bit.
\<close>

function ctz_from :: "uint64 \<Rightarrow> nat \<Rightarrow> nat" where
  "ctz_from x i = (if 64 \<le> i then 64 else if bit x i then i else ctz_from x (i + 1))"
  by pat_completeness auto
termination
  by (relation "measure (\<lambda>(x, i). 64 - i)") auto

definition builtin_ctzll :: "uint64 \<Rightarrow> nat" where
  "builtin_ctzll x = ctz_from x 0"

function clz_from :: "uint64 \<Rightarrow> nat \<Rightarrow> nat" where
  "clz_from x i = (if 64 \<le> i then 64 else if bit x (63 - i) then i else clz_from x (i + 1))"
  by pat_completeness auto
termination
  by (relation "measure (\<lambda>(x, i). 64 - i)") auto

definition builtin_clzll :: "uint64 \<Rightarrow> nat" where
  "builtin_clzll x = clz_from x 0"

text \<open>
  \<^verbatim>\<open>bitmap_find_highest\<close> scans the words \<^verbatim>\<open>start_word\<close>, ..., 0 and does nothing
  for a negative \<^verbatim>\<open>start_word\<close>; \<^verbatim>\<open>bitmap_find_lowest\<close> scans
  \<^verbatim>\<open>start_word\<close>, ..., \<^verbatim>\<open>num_words - 1\<close>, with \<^verbatim>\<open>start_word\<close> converted to
  \<^verbatim>\<open>size_t\<close>.
\<close>

fun find_highest_from :: "(nat \<Rightarrow> uint64) \<Rightarrow> nat \<Rightarrow> int64" where
  "find_highest_from bitmap w =
     (if bitmap w \<noteq> 0 then of_nat (w * 64 + (63 - builtin_clzll (bitmap w)))
      else if w = 0 then - 1 else find_highest_from bitmap (w - 1))"

definition bitmap_find_highest :: "(nat \<Rightarrow> uint64) \<Rightarrow> nat \<Rightarrow> int64 \<Rightarrow> int64" where
  "bitmap_find_highest bitmap num_words start_word =
     (if start_word <s 0 then - 1 else find_highest_from bitmap (unat start_word))"

function find_lowest_from :: "(nat \<Rightarrow> uint64) \<Rightarrow> nat \<Rightarrow> nat \<Rightarrow> int64" where
  "find_lowest_from bitmap num_words w =
     (if w < num_words
      then (if bitmap w \<noteq> 0 then of_nat (w * 64 + builtin_ctzll (bitmap w))
            else find_lowest_from bitmap num_words (w + 1))
      else - 1)"
  by pat_completeness auto
termination
  by (relation "measure (\<lambda>(b, n, w). n - w)") auto

declare ctz_from.simps [simp del] clz_from.simps [simp del]
  find_highest_from.simps [simp del] find_lowest_from.simps [simp del]

definition bitmap_find_lowest :: "(nat \<Rightarrow> uint64) \<Rightarrow> nat \<Rightarrow> int64 \<Rightarrow> int64" where
  "bitmap_find_lowest bitmap num_words start_word =
     find_lowest_from bitmap num_words (unat start_word)"

definition bitmap_set :: "(nat \<Rightarrow> uint64) \<Rightarrow> nat \<Rightarrow> (nat \<Rightarrow> uint64)" where
  "bitmap_set bitmap idx =
     bitmap(idx div 64 := bitmap (idx div 64) OR push_bit (idx mod 64) 1)"

definition bitmap_clear :: "(nat \<Rightarrow> uint64) \<Rightarrow> nat \<Rightarrow> (nat \<Rightarrow> uint64)" where
  "bitmap_clear bitmap idx =
     bitmap(idx div 64 := bitmap (idx div 64) AND NOT (push_bit (idx mod 64) 1))"

definition bitmap_test :: "(nat \<Rightarrow> uint64) \<Rightarrow> nat \<Rightarrow> bool" where
  "bitmap_test bitmap idx = (bitmap (idx div 64) AND push_bit (idx mod 64) 1 \<noteq> 0)"

definition update_best_bid_after_add :: "int64 \<Rightarrow> Book \<Rightarrow> Book" where
  "update_best_bid_after_add p s =
     (let idx = price_to_index p;
          s1 = s\<lparr>bid_bitmap := bitmap_set (bid_bitmap s) idx\<rparr>
      in if best_bid s1 <s 0 \<or> best_bid s1 <s p
         then s1\<lparr>best_bid := p, best_bid_word := of_nat (idx div 64)\<rparr>
         else s1)"

definition update_best_ask_after_add :: "int64 \<Rightarrow> Book \<Rightarrow> Book" where
  "update_best_ask_after_add p s =
     (let idx = price_to_index p;
          s1 = s\<lparr>ask_bitmap := bitmap_set (ask_bitmap s) idx\<rparr>
      in if best_ask s1 = INT64_MAX \<or> p <s best_ask s1
         then s1\<lparr>best_ask := p, best_ask_word := of_nat (idx div 64)\<rparr>
         else s1)"

text \<open>
  In the two functions below \<^verbatim>\<open>new_best / 64\<close> divides a value just tested to be
  non-negative, where the signed and the unsigned quotient agree.
\<close>

definition update_best_bid_after_remove :: "int64 \<Rightarrow> Book \<Rightarrow> Book" where
  "update_best_bid_after_remove removed_price s =
     (let idx = price_to_index removed_price;
          s1 = (if level_empty (bid_levels s idx)
                then s\<lparr>bid_bitmap := bitmap_clear (bid_bitmap s) idx\<rparr> else s)
      in if removed_price = best_bid s1
         then (let new_best = bitmap_find_highest (bid_bitmap s1) BITMAP_WORDS (best_bid_word s1)
               in if 0 \<le>s new_best
                  then s1\<lparr>best_bid := index_to_price (unat new_best),
                          best_bid_word := new_best div 64\<rparr>
                  else s1\<lparr>best_bid := - 1, best_bid_word := - 1\<rparr>)
         else s1)"

definition update_best_ask_after_remove :: "int64 \<Rightarrow> Book \<Rightarrow> Book" where
  "update_best_ask_after_remove removed_price s =
     (let idx = price_to_index removed_price;
          s1 = (if level_empty (ask_levels s idx)
                then s\<lparr>ask_bitmap := bitmap_clear (ask_bitmap s) idx\<rparr> else s)
      in if removed_price = best_ask s1
         then (let new_best = bitmap_find_lowest (ask_bitmap s1) BITMAP_WORDS (best_ask_word s1)
               in if 0 \<le>s new_best
                  then s1\<lparr>best_ask := index_to_price (unat new_best),
                          best_ask_word := new_best div 64\<rparr>
                  else s1\<lparr>best_ask := INT64_MAX, best_ask_word := 0\<rparr>)
         else s1)"

section \<open>Event emission\<close>

text \<open>
  \<^verbatim>\<open>RingBuffer::push_batch\<close> writes as many messages as the ring has room for, at most
  \<^verbatim>\<open>Size - 1\<close> in all, and returns their number.
\<close>

definition push_batch :: "OutputMsg list \<Rightarrow> OutputMsg list \<Rightarrow> OutputMsg list \<times> nat" where
  "push_batch rb batch_data =
     (let cnt = length batch_data;
          used = length rb mod OUTPUT_BUFFER_SIZE;
          available = (OUTPUT_BUFFER_SIZE - 1) - used;
          to_write = (if cnt < available then cnt else available)
      in (rb @ take to_write batch_data, to_write))"

definition flush_batch :: "Book \<Rightarrow> Book" where
  "flush_batch s =
     (if batch_buffer s \<noteq> []
      then (let (rb, pushed) = push_batch (ring s) (batch_buffer s);
                cnt = length (batch_buffer s)
            in s\<lparr>ring := rb,
                 messages_dropped :=
                   (if pushed < cnt then messages_dropped s + of_nat (cnt - pushed)
                    else messages_dropped s),
                 batch_buffer := []\<rparr>)
      else s)"

definition stage :: "OutputMsg \<Rightarrow> Book \<Rightarrow> Book" where
  "stage msg s =
     (let s1 = s\<lparr>batch_buffer := batch_buffer s @ [msg]\<rparr>
      in if BATCH_SIZE \<le> length (batch_buffer s1) then flush_batch s1 else s1)"

definition emit_trade :: "uint64 \<Rightarrow> uint64 \<Rightarrow> int64 \<Rightarrow> int64 \<Rightarrow> Book \<Rightarrow> Book" where
  "emit_trade buy_id sell_id p qty s =
     (let s1 = s\<lparr>trades_executed := trades_executed s + 1\<rparr>
      in if use_ring_buffer s1
         then stage (Trade (current_timestamp s1) buy_id sell_id p qty) s1 else s1)"

definition emit_order_accepted :: "uint64 \<Rightarrow> bool \<Rightarrow> int64 \<Rightarrow> int64 \<Rightarrow> Book \<Rightarrow> Book" where
  "emit_order_accepted oid side p qty s =
     (if \<not> emit_accepts s then s
      else if use_ring_buffer s
      then stage (OrderAccepted (current_timestamp s) oid side p qty) s else s)"

definition emit_order_cancelled :: "uint64 \<Rightarrow> int64 \<Rightarrow> Book \<Rightarrow> Book" where
  "emit_order_cancelled oid cancelled_qty s =
     (if \<not> emit_cancels s then s
      else if use_ring_buffer s
      then stage (OrderCancelled (current_timestamp s) oid cancelled_qty) s else s)"

section \<open>Resting, cancelling and modifying orders\<close>

definition ensure_capacity :: "uint64 \<Rightarrow> Book \<Rightarrow> Book" where
  "ensure_capacity oid s =
     (let s1 = (if order_index_size s \<le> unat oid
                then (let new_size = max (unat (oid + 1)) ((order_index_size s * 2) mod 2 ^ 64)
                      in s\<lparr>order_index :=
                             (\<lambda>i. if order_index_size s \<le> i \<and> i < new_size
                                  then OrderLocation_zero else order_index s i),
                           order_index_size := new_size\<rparr>)
                else s)
      in if max_order_id s1 < oid then s1\<lparr>max_order_id := oid\<rparr> else s1)"

text \<open>
  The write of the location record of \<^verbatim>\<open>order_id\<close> that ends each of the three
  resting functions, with the increment of \<^verbatim>\<open>active_order_count_\<close>.
\<close>

definition index_order :: "uint64 \<Rightarrow> bool \<Rightarrow> int64 \<Rightarrow> uint32 \<Rightarrow> Book \<Rightarrow> fault + Book" where
  "index_order oid buy p idx s =
     (let s1 = ensure_capacity oid s
      in if order_index_size s1 \<le> unat oid then Inl IndexOverrun
         else Inr (s1\<lparr>order_index := (order_index s1)(unat oid :=
                         \<lparr>loc_price = p, pool_idx = idx,
                          loc_flags = set_active True (set_buy buy 0)\<rparr>),
                       active_order_count := active_order_count s1 + 1\<rparr>))"

text \<open>
  \<^verbatim>\<open>if (was_empty) { ... }\<close> of the three resting functions: the count of non-empty
  levels of the side and its best price.
\<close>

definition level_opened :: "bool \<Rightarrow> int64 \<Rightarrow> Book \<Rightarrow> Book" where
  "level_opened buy p s =
     (if buy then update_best_bid_after_add p (s\<lparr>bid_level_count := bid_level_count s + 1\<rparr>)
      else update_best_ask_after_add p (s\<lparr>ask_level_count := ask_level_count s + 1\<rparr>))"

text \<open>The diagnostic at the end of \<^verbatim>\<open>add_order_internal\<close> in \<^verbatim>\<open>order_book.cpp\<close>.\<close>

definition cross_check :: "Book \<Rightarrow> Book" where
  "cross_check s =
     (if 0 \<le>s best_bid s \<and> best_ask s \<noteq> INT64_MAX \<and> best_ask s \<le>s best_bid s
      then s\<lparr>cross_reports := cross_reports s @ [(best_bid s, best_ask s)]\<rparr> else s)"

definition add_order_internal ::
  "uint64 \<Rightarrow> bool \<Rightarrow> int64 \<Rightarrow> int64 \<Rightarrow> uint32 \<Rightarrow> Book \<Rightarrow> fault + Book" where
  "add_order_internal oid buy p qty user_id s =
     (let price_idx = price_to_index p
      in if MAX_PRICE_LEVELS \<le> price_idx then Inr s
         else let was_empty = level_empty (get_level buy price_idx s)
              in case allocate (order_pool s) of
                   Inl e \<Rightarrow> Inl e
                 | Inr (idx, pl) \<Rightarrow>
                     (let order = \<lparr>order_id = oid, price = p, quantity = qty,
                                   hidden_quantity = 0, peak_size = 0,
                                   o_next = NULL_INDEX, o_prev = NULL_INDEX,
                                   user_id_low = user_id,
                                   flags = set_aon False (set_buy buy 0)\<rparr>;
                          s1 = set_order idx order (s\<lparr>order_pool := pl\<rparr>);
                          s2 = list_push_back buy price_idx idx s1;
                          s3 = add_to_level_volume buy price_idx (order_at s2 idx) s2;
                          s4 = (if was_empty then level_opened buy p s3 else s3)
                      in case index_order oid buy p idx s4 of
                           Inl e \<Rightarrow> Inl e
                         | Inr s5 \<Rightarrow> Inr (cross_check (emit_order_accepted oid buy p qty s5))))"

definition add_iceberg_internal ::
  "uint64 \<Rightarrow> bool \<Rightarrow> int64 \<Rightarrow> int64 \<Rightarrow> int64 \<Rightarrow> uint32 \<Rightarrow> Book \<Rightarrow> fault + Book" where
  "add_iceberg_internal oid buy p total_qty visible_qty user_id s =
     (let price_idx = price_to_index p
      in if MAX_PRICE_LEVELS \<le> price_idx then Inr s
         else let was_empty = level_empty (get_level buy price_idx s);
                  display_qty = smin visible_qty total_qty;
                  hidden_qty = total_qty - display_qty
              in case allocate (order_pool s) of
                   Inl e \<Rightarrow> Inl e
                 | Inr (idx, pl) \<Rightarrow>
                     (let order = \<lparr>order_id = oid, price = p, quantity = display_qty,
                                   hidden_quantity = hidden_qty, peak_size = visible_qty,
                                   o_next = NULL_INDEX, o_prev = NULL_INDEX,
                                   user_id_low = user_id,
                                   flags = set_aon False (set_buy buy 0)\<rparr>;
                          s1 = set_order idx order (s\<lparr>order_pool := pl\<rparr>);
                          s2 = list_push_back buy price_idx idx s1;
                          s3 = add_to_level_volume buy price_idx (order_at s2 idx) s2;
                          s4 = (if was_empty then level_opened buy p s3 else s3)
                      in case index_order oid buy p idx s4 of
                           Inl e \<Rightarrow> Inl e
                         | Inr s5 \<Rightarrow> Inr (emit_order_accepted oid buy p display_qty s5)))"

definition add_aon_internal ::
  "uint64 \<Rightarrow> bool \<Rightarrow> int64 \<Rightarrow> int64 \<Rightarrow> uint32 \<Rightarrow> Book \<Rightarrow> fault + Book" where
  "add_aon_internal oid buy p qty user_id s =
     (let price_idx = price_to_index p
      in if MAX_PRICE_LEVELS \<le> price_idx then Inr s
         else let was_empty = level_empty (get_level buy price_idx s)
              in case allocate (order_pool s) of
                   Inl e \<Rightarrow> Inl e
                 | Inr (idx, pl) \<Rightarrow>
                     (let order = \<lparr>order_id = oid, price = p, quantity = qty,
                                   hidden_quantity = 0, peak_size = 0,
                                   o_next = NULL_INDEX, o_prev = NULL_INDEX,
                                   user_id_low = user_id,
                                   flags = set_aon True (set_buy buy 0)\<rparr>;
                          s1 = set_order idx order (s\<lparr>order_pool := pl\<rparr>);
                          s2 = list_push_back buy price_idx idx s1;
                          s3 = add_to_level_volume buy price_idx (order_at s2 idx) s2;
                          s4 = (if was_empty then level_opened buy p s3 else s3)
                      in case index_order oid buy p idx s4 of
                           Inl e \<Rightarrow> Inl e
                         | Inr s5 \<Rightarrow> Inr (emit_order_accepted oid buy p qty s5)))"

text \<open>
  \<^verbatim>\<open>if (level.empty()) { ... }\<close> after a removal: the count of non-empty levels of the
  side and its best price.
\<close>

definition level_closed :: "bool \<Rightarrow> int64 \<Rightarrow> Book \<Rightarrow> Book" where
  "level_closed buy p s =
     (if buy then update_best_bid_after_remove p (s\<lparr>bid_level_count := bid_level_count s - 1\<rparr>)
      else update_best_ask_after_remove p (s\<lparr>ask_level_count := ask_level_count s - 1\<rparr>))"

definition cancel_order_internal :: "uint64 \<Rightarrow> Book \<Rightarrow> Book" where
  "cancel_order_internal oid s =
     (if order_index_size s \<le> unat oid \<or> \<not> loc_is_active (order_index s (unat oid)) then s
      else let loc = order_index s (unat oid);
               price_idx = price_to_index (loc_price loc)
           in if MAX_PRICE_LEVELS \<le> price_idx then s
              else let buy = loc_is_buy loc;
                       order = order_at s (pool_idx loc);
                       cancelled_qty = quantity order + hidden_quantity order;
                       s1 = remove_from_level_volume buy price_idx order s;
                       s2 = list_remove buy price_idx (pool_idx loc) s1;
                       s3 = s2\<lparr>order_pool := pool_free (pool_idx loc) (order_pool s2)\<rparr>;
                       s4 = (if level_empty (get_level buy price_idx s3)
                             then level_closed buy (loc_price loc) s3 else s3);
                       s5 = s4\<lparr>order_index := (order_index s4)(unat oid :=
                                   loc\<lparr>loc_flags := set_active False (loc_flags loc)\<rparr>),
                                 active_order_count := active_order_count s4 - 1\<rparr>
                   in emit_order_cancelled oid cancelled_qty s5)"

definition modify_order_internal :: "uint64 \<Rightarrow> int64 \<Rightarrow> int64 \<Rightarrow> Book \<Rightarrow> fault + Book" where
  "modify_order_internal oid new_price new_quantity s =
     (if order_index_size s \<le> unat oid \<or> \<not> loc_is_active (order_index s (unat oid)) then Inr s
      else let loc = order_index s (unat oid);
               price_idx = price_to_index (loc_price loc)
           in if MAX_PRICE_LEVELS \<le> price_idx then Inr s
              else let order = order_at s (pool_idx loc)
                   in if new_price = loc_price loc \<and> new_quantity \<le>s quantity order
                      then (let delta = new_quantity - quantity order;
                                s1 = adjust_level_volume (loc_is_buy loc) price_idx delta 0
                                       (is_aon order) s
                            in Inr (set_order (pool_idx loc)
                                      ((order_at s1 (pool_idx loc))\<lparr>quantity := new_quantity\<rparr>) s1))
                      else (let buy = loc_is_buy loc
                            in add_order_internal oid buy new_price new_quantity 0
                                 (cancel_order_internal oid s)))"

section \<open>Feasibility probe\<close>

text \<open>
  The loops of the matching code follow \<^verbatim>\<open>next\<close> indices through the pool and move
  the price by one tick at a time; nothing in their text bounds them, so each is a partial
  function: \<open>None\<close> is a loop that does not return.

  \<open>probe_fifo\<close> is the \<^verbatim>\<open>while (curr != NULL_INDEX && remaining > 0)\<close> of
  \<^verbatim>\<open>calculate_available_quantity\<close>; it returns \<^verbatim>\<open>available\<close> and
  \<^verbatim>\<open>remaining\<close>.
\<close>

partial_function (option) probe_fifo ::
  "(uint32 \<Rightarrow> Order) \<Rightarrow> uint32 \<Rightarrow> int64 \<Rightarrow> int64 \<Rightarrow> (int64 \<times> int64) option" where
  "probe_fifo pl cur available remaining =
     (if cur \<noteq> NULL_INDEX \<and> 0 <s remaining
      then (let order = pl cur;
                order_total = quantity order + hidden_quantity order
            in if is_aon order
               then (if order_total \<le>s remaining
                     then probe_fifo pl (o_next order) (available + order_total)
                            (remaining - order_total)
                     else probe_fifo pl (o_next order) available remaining)
               else (let fillable = smin remaining order_total
                     in probe_fifo pl (o_next order) (available + fillable)
                          (remaining - fillable)))
      else Some (available, remaining))"

text \<open>
  What one non-empty level adds to \<^verbatim>\<open>available\<close>: its aggregate when it holds no
  AON volume, else the walk of its FIFO.
\<close>

definition probe_level ::
  "(uint32 \<Rightarrow> Order) \<Rightarrow> PriceLevel \<Rightarrow> int64 \<Rightarrow> int64 \<Rightarrow> (int64 \<times> int64) option" where
  "probe_level pl level available remaining =
     (if total_aon_volume level = 0
      then (let fillable = smin remaining (total_volume level)
            in Some (available + fillable, remaining - fillable))
      else probe_fifo pl (head level) available remaining)"

text \<open>
  The ascending loop of a buy (\<^verbatim>\<open>order_book.cpp\<close>, which leaves it with
  \<^verbatim>\<open>break\<close> at the first price outside the domain) and the descending loop of a sell
  (which skips such prices with \<^verbatim>\<open>continue\<close>).
\<close>

partial_function (option) probe_asks ::
  "Book \<Rightarrow> int64 \<Rightarrow> int64 \<Rightarrow> int64 \<Rightarrow> int64 \<Rightarrow> int64 option" where
  "probe_asks s limit_price p available remaining =
     (if p \<le>s limit_price \<and> 0 <s remaining
      then (let idx = price_to_index p
            in if MAX_PRICE_LEVELS \<le> idx then Some available
               else if level_empty (ask_levels s idx)
               then probe_asks s limit_price (p + 1) available remaining
               else Option.bind
                      (probe_level (pool (order_pool s)) (ask_levels s idx) available remaining)
                      (\<lambda>(a, r). probe_asks s limit_price (p + 1) a r))
      else Some available)"

partial_function (option) probe_bids ::
  "Book \<Rightarrow> int64 \<Rightarrow> int64 \<Rightarrow> int64 \<Rightarrow> int64 \<Rightarrow> int64 option" where
  "probe_bids s limit_price p available remaining =
     (if limit_price \<le>s p \<and> 0 <s remaining
      then (let idx = price_to_index p
            in if MAX_PRICE_LEVELS \<le> idx
               then probe_bids s limit_price (p - 1) available remaining
               else if level_empty (bid_levels s idx)
               then probe_bids s limit_price (p - 1) available remaining
               else Option.bind
                      (probe_level (pool (order_pool s)) (bid_levels s idx) available remaining)
                      (\<lambda>(a, r). probe_bids s limit_price (p - 1) a r))
      else Some available)"

definition calculate_available_quantity :: "bool \<Rightarrow> int64 \<Rightarrow> int64 \<Rightarrow> Book \<Rightarrow> int64 option" where
  "calculate_available_quantity buy limit_price incoming_qty s =
     (let best = (if buy then best_ask s else best_bid s)
      in if buy \<and> best = INT64_MAX then Some 0
         else if \<not> buy \<and> best <s 0 then Some 0
         else if buy then probe_asks s limit_price best 0 incoming_qty
         else probe_bids s limit_price best 0 incoming_qty)"

section \<open>Matching\<close>

text \<open>
  \<open>fill_order\<close> is the body of the inner loop of \<^verbatim>\<open>match_internal\<close> for a book
  order that is not skipped: the trade, then either nothing more, the iceberg refresh, or
  the removal of the consumed order. \<open>buy\<close> is the side of the aggressor, so the level
  is on the other side. It returns the new \<^verbatim>\<open>remaining_qty\<close> with the book.
\<close>

definition fill_order ::
  "uint64 \<Rightarrow> bool \<Rightarrow> nat \<Rightarrow> int64 \<Rightarrow> uint32 \<Rightarrow> int64 \<Rightarrow> Book \<Rightarrow> int64 \<times> Book" where
  "fill_order oid buy level_idx current_best cur remaining_qty s =
     (let book_order = order_at s cur;
          trade_qty = smin remaining_qty (quantity book_order);
          buy_id = (if buy then oid else order_id book_order);
          sell_id = (if buy then order_id book_order else oid);
          s1 = emit_trade buy_id sell_id current_best trade_qty s;
          remaining1 = remaining_qty - trade_qty;
          s2 = adjust_level_volume (\<not> buy) level_idx (- trade_qty) 0 (is_aon book_order) s1;
          s3 = set_order cur ((order_at s2 cur)\<lparr>quantity := quantity (order_at s2 cur) - trade_qty\<rparr>) s2
      in if quantity (order_at s3 cur) = 0
         then (if 0 <s hidden_quantity (order_at s3 cur)
               then (let o3 = order_at s3 cur;
                         replenish = smin (if 0 <s peak_size o3 then peak_size o3
                                           else hidden_quantity o3) (hidden_quantity o3);
                         s4 = remove_from_level_volume (\<not> buy) level_idx o3 s3;
                         s5 = list_remove (\<not> buy) level_idx cur s4;
                         o5 = order_at s5 cur;
                         s6 = set_order cur (o5\<lparr>quantity := replenish,
                                hidden_quantity := hidden_quantity o5 - replenish\<rparr>) s5;
                         s7 = list_push_back (\<not> buy) level_idx cur s6;
                         s8 = add_to_level_volume (\<not> buy) level_idx (order_at s7 cur) s7;
                         bid = unat (order_id (order_at s8 cur))
                     in (remaining1,
                         if bid < order_index_size s8
                         then s8\<lparr>order_index := (order_index s8)(bid :=
                                    (order_index s8 bid)\<lparr>pool_idx := cur\<rparr>)\<rparr>
                         else s8))
               else (let s4 = list_remove (\<not> buy) level_idx cur s3;
                         bid = unat (order_id (order_at s4 cur));
                         s5 = (if bid < order_index_size s4
                               then s4\<lparr>order_index := (order_index s4)(bid :=
                                          (order_index s4 bid)\<lparr>loc_flags :=
                                             set_active False (loc_flags (order_index s4 bid))\<rparr>),
                                        active_order_count := active_order_count s4 - 1\<rparr>
                               else s4)
                     in (remaining1, s5\<lparr>order_pool := pool_free cur (order_pool s5)\<rparr>)))
         else (remaining1, s3))"

text \<open>
  The inner loop over the FIFO of the level at \<open>level_idx\<close>, from \<open>cur\<close>; it returns
  \<^verbatim>\<open>remaining_qty\<close>, \<^verbatim>\<open>trade_count\<close> and the book.
\<close>

partial_function (option) walk_level ::
  "uint64 \<Rightarrow> bool \<Rightarrow> nat \<Rightarrow> int64 \<Rightarrow> uint32 \<Rightarrow> int64 \<Rightarrow> uint64 \<Rightarrow> Book
     \<Rightarrow> (int64 \<times> uint64 \<times> Book) option" where
  "walk_level oid buy level_idx current_best cur remaining_qty trade_count s =
     (if cur \<noteq> NULL_INDEX \<and> 0 <s remaining_qty
      then (let book_order = order_at s cur;
                next_idx = o_next book_order
            in if is_aon book_order
                  \<and> remaining_qty <s quantity book_order + hidden_quantity book_order
               then walk_level oid buy level_idx current_best next_idx remaining_qty trade_count s
               else (let (remaining1, s1) =
                           fill_order oid buy level_idx current_best cur remaining_qty s
                     in walk_level oid buy level_idx current_best next_idx remaining1
                          (trade_count + 1) s1))
      else Some (remaining_qty, trade_count, s))"

declare probe_fifo.simps [code] walk_level.simps [code]

definition opposite_best :: "bool \<Rightarrow> Book \<Rightarrow> int64" where
  "opposite_best buy s = (if buy then best_ask s else best_bid s)"

definition opposite_side_empty :: "bool \<Rightarrow> Book \<Rightarrow> bool" where
  "opposite_side_empty buy s = (if buy then best_ask s = INT64_MAX else best_bid s <s 0)"

text \<open>
  The outer loop \<^verbatim>\<open>while (remaining_qty > 0 && !opposite_side_empty)\<close>. The flag
  \<open>ose\<close> is the local variable \<^verbatim>\<open>opposite_side_empty\<close>, which the source computes
  before the loop and again at the end of each full iteration, not after the
  \<^verbatim>\<open>continue\<close> of an empty level.
\<close>

partial_function (option) match_loop ::
  "uint64 \<Rightarrow> bool \<Rightarrow> int64 \<Rightarrow> int64 \<Rightarrow> uint64 \<Rightarrow> bool \<Rightarrow> Book
     \<Rightarrow> (int64 \<times> uint64 \<times> Book) option" where
  "match_loop oid buy p remaining_qty trade_count ose s =
     (if 0 <s remaining_qty \<and> \<not> ose
      then (let best_price = opposite_best buy s
            in if buy \<and> p <s best_price then Some (remaining_qty, trade_count, s)
               else if \<not> buy \<and> best_price <s p then Some (remaining_qty, trade_count, s)
               else (let level_idx = price_to_index best_price
                     in if MAX_PRICE_LEVELS \<le> level_idx then Some (remaining_qty, trade_count, s)
                        else if level_empty (get_level (\<not> buy) level_idx s)
                        then match_loop oid buy p remaining_qty trade_count ose
                               (if buy then update_best_ask_after_remove best_price s
                                else update_best_bid_after_remove best_price s)
                        else Option.bind
                               (walk_level oid buy level_idx best_price
                                  (head (get_level (\<not> buy) level_idx s))
                                  remaining_qty trade_count s)
                               (\<lambda>(remaining1, trade_count1, s1).
                                  let s2 = (if level_empty (get_level (\<not> buy) level_idx s1)
                                            then level_closed (\<not> buy) best_price s1 else s1)
                                  in match_loop oid buy p remaining1 trade_count1
                                       (opposite_side_empty buy s2) s2)))
      else Some (remaining_qty, trade_count, s))"

declare probe_asks.simps [code] probe_bids.simps [code] match_loop.simps [code]

text \<open>
  \<^verbatim>\<open>match_internal\<close> returns \<^verbatim>\<open>trade_count\<close>; the model returns it with the book,
  or the fault met while resting the residual, or \<open>None\<close> when a loop does not return.
\<close>

definition rest_residual ::
  "uint64 \<Rightarrow> bool \<Rightarrow> int64 \<Rightarrow> TimeInForce \<Rightarrow> int64 \<Rightarrow> Book \<Rightarrow> fault + Book" where
  "rest_residual oid buy p tif remaining_qty s =
     (if 0 <s remaining_qty
      then (case tif of
              GTC \<Rightarrow> add_order_internal oid buy p remaining_qty 0 s
            | AON \<Rightarrow> add_aon_internal oid buy p remaining_qty 0 s
            | IOC \<Rightarrow> Inr s
            | FOK \<Rightarrow> Inr s)
      else Inr s)"

definition match_internal ::
  "uint64 \<Rightarrow> bool \<Rightarrow> int64 \<Rightarrow> int64 \<Rightarrow> TimeInForce \<Rightarrow> Book \<Rightarrow> (fault + uint64 \<times> Book) option" where
  "match_internal oid buy p qty tif s =
     (let ose = opposite_side_empty buy s
      in Option.bind
           (if tif = FOK \<or> tif = AON then calculate_available_quantity buy p qty s else Some qty)
           (\<lambda>available.
              if tif = FOK \<and> available <s qty then Some (Inr (0, s))
              else if tif = AON \<and> available <s qty
              then Some (map_sum id (Pair 0) (add_aon_internal oid buy p qty 0 s))
              else Option.bind (match_loop oid buy p qty 0 ose s)
                     (\<lambda>(remaining_qty, trade_count, s1).
                        Some (map_sum id (Pair trade_count)
                                (rest_residual oid buy p tif remaining_qty s1)))))"

section \<open>Public operations and observers\<close>

text \<open>The local \<^verbatim>\<open>is_aggressive\<close> of \<^verbatim>\<open>add_order\<close>.\<close>

definition is_aggressive :: "bool \<Rightarrow> int64 \<Rightarrow> Book \<Rightarrow> bool" where
  "is_aggressive buy p s =
     (if buy then best_ask s \<noteq> INT64_MAX \<and> best_ask s \<le>s p
      else 0 \<le>s best_bid s \<and> p \<le>s best_bid s)"

definition add_order ::
  "uint64 \<Rightarrow> bool \<Rightarrow> int64 \<Rightarrow> int64 \<Rightarrow> uint32 \<Rightarrow> Book \<Rightarrow> (fault + Book) option" where
  "add_order oid buy p qty user_id s =
     (if is_aggressive buy p s
      then map_option (map_sum id snd) (match_internal oid buy p qty GTC s)
      else Some (add_order_internal oid buy p qty user_id s))"

definition match_order ::
  "uint64 \<Rightarrow> bool \<Rightarrow> int64 \<Rightarrow> int64 \<Rightarrow> TimeInForce \<Rightarrow> Book \<Rightarrow> (fault + Book) option" where
  "match_order oid buy p qty tif s = map_option (map_sum id snd) (match_internal oid buy p qty tif s)"

definition cancel_order :: "uint64 \<Rightarrow> Book \<Rightarrow> Book" where
  "cancel_order oid s = cancel_order_internal oid s"

definition reset_internal :: "Book \<Rightarrow> Book" where
  "reset_internal s =
     s\<lparr>bid_levels := (\<lambda>_. level_reset), ask_levels := (\<lambda>_. level_reset),
       bid_bitmap := (\<lambda>_. 0), ask_bitmap := (\<lambda>_. 0),
       best_bid := - 1, best_ask := INT64_MAX, best_bid_word := - 1, best_ask_word := 0,
       bid_level_count := 0, ask_level_count := 0, active_order_count := 0,
       order_pool := pool_reset (order_pool s),
       order_index := (\<lambda>i. if i \<le> unat (max_order_id s) \<and> i < order_index_size s
                            then (order_index s i)\<lparr>loc_flags :=
                                    set_active False (loc_flags (order_index s i))\<rparr>
                            else order_index s i)\<rparr>"

definition get_best_bid :: "Book \<Rightarrow> int64" where
  "get_best_bid s = (if 0 \<le>s best_bid s then best_bid s else 0)"

definition get_best_ask :: "Book \<Rightarrow> int64" where
  "get_best_ask s = best_ask s"

section \<open>Concrete books\<close>

text \<open>
  Small books built by the operations themselves, on a pool of four slots; the theorems on
  concrete inputs run on them.
\<close>

definition book0 :: Book where
  "book0 = new_book 4"

definition book_bid :: Book where
  "book_bid = projr (add_order_internal 1 True 100 10 7 book0)"

definition book_two :: Book where
  "book_two = projr (add_order_internal 2 False 105 5 8 book_bid)"

definition book_crossed :: Book where
  "book_crossed = projr (modify_order_internal 1 105 10 book_two)"

definition book_ask :: Book where
  "book_ask = projr (add_order_internal 1 False 100 5 0 book0)"

definition book_swept :: Book where
  "book_swept = projr (the (add_order 2 True 33554432 3 0 book_ask))"

definition book_ice :: Book where
  "book_ice = projr (add_iceberg_internal 1 True 100 50 10 7 book0)"

definition side_bitmap :: "bool \<Rightarrow> Book \<Rightarrow> nat \<Rightarrow> uint64" where
  "side_bitmap bid s = (if bid then bid_bitmap s else ask_bitmap s)"

definition book_matched :: Book where
  "book_matched = projr (the (add_order 1 True 105 10 0 (cancel_order_internal 1 book_two)))"

definition book_aon :: Book where
  "book_aon = projr (add_aon_internal 1 False 100 20 0 book0)"

definition book_aon_crossed :: Book where
  "book_aon_crossed = projr (the (match_order 2 True 100 10 AON book_ask))"

definition first_of :: "uint32 list \<Rightarrow> uint32" where
  "first_of xs = (if xs = [] then NULL_INDEX else hd xs)"

definition last_of :: "uint32 list \<Rightarrow> uint32" where
  "last_of xs = (if xs = [] then NULL_INDEX else last xs)"

fun succ_in :: "uint32 list \<Rightarrow> uint32 \<Rightarrow> uint32" where
  "succ_in [] x = NULL_INDEX"
| "succ_in (a # xs) x = (if x = a then first_of xs else succ_in xs x)"

fun pred_in :: "uint32 list \<Rightarrow> uint32 \<Rightarrow> uint32" where
  "pred_in [] x = NULL_INDEX"
| "pred_in (a # xs) x = (if x = first_of xs \<and> xs \<noteq> [] then a else pred_in xs x)"

definition is_fifo :: "Book \<Rightarrow> bool \<Rightarrow> nat \<Rightarrow> uint32 list \<Rightarrow> bool" where
  "is_fifo s bid li xs \<longleftrightarrow>
     distinct xs \<and> NULL_INDEX \<notin> set xs
     \<and> head (get_level bid li s) = first_of xs \<and> tail (get_level bid li s) = last_of xs
     \<and> (\<forall>x \<in> set xs. o_next (order_at s x) = succ_in xs x \<and> o_prev (order_at s x) = pred_in xs x)"

definition book_ice2 :: Book where
  "book_ice2 = projr (add_order_internal 2 True 100 5 0 book_ice)"

section \<open>Evaluation\<close>

text \<open>
  Concrete runs are evaluated by rewriting with the definitions; the congruence rule
  \<open>Let_weak\<close> makes the simplifier evaluate the bound term of a \<open>let\<close>
  before it enters the body.
\<close>

lemma Let_weak: "a = b \<Longrightarrow> Let a t = Let b t"
  by simp

text \<open>
  A scan of the ask bitmap runs over all of its 524288 words when no bit is set; these two
  facts give its result at once.
\<close>

lemma find_lowest_from_zero:
  "\<forall>i. bitmap i = 0 \<Longrightarrow> find_lowest_from bitmap n w = - 1"
  by (induction bitmap n w rule: find_lowest_from.induct) (simp add: find_lowest_from.simps)

lemma find_lowest_from_hit:
  "w < n \<Longrightarrow> bitmap w \<noteq> 0 \<Longrightarrow>
     find_lowest_from bitmap n w = of_nat (w * 64 + builtin_ctzll (bitmap w))"
  by (simp add: find_lowest_from.simps)

lemmas consts_defs = INT64_MAX_def NULL_INDEX_def PRICE_OFFSET_def MAX_PRICE_LEVELS_def BITMAP_WORDS_def
  OUTPUT_BUFFER_SIZE_def BATCH_SIZE_def INITIAL_ORDER_CAPACITY_def
lemmas small_defs = smin_def Order_zero_def is_aon_def is_buy_def set_buy_def set_aon_def set_active_def
  loc_is_buy_def loc_is_active_def level_reset_def level_empty_def OrderLocation_zero_def
  price_to_index_def index_to_price_def get_level_def set_level_def order_at_def set_order_def
lemmas pool_defs = new_pool_def grow_def allocate_def pool_free_def pool_reset_def
lemmas list_defs = list_push_back_def list_remove_def add_to_level_volume_def
  remove_from_level_volume_def adjust_level_volume_def
lemmas best_defs = bitmap_set_def bitmap_clear_def update_best_bid_after_add_def
  update_best_ask_after_add_def update_best_bid_after_remove_def update_best_ask_after_remove_def
  bitmap_find_highest_def bitmap_find_lowest_def builtin_clzll_def builtin_ctzll_def
  ctz_from.simps clz_from.simps find_highest_from.simps
lemmas emit_defs = push_batch_def flush_batch_def stage_def emit_trade_def emit_order_accepted_def
  emit_order_cancelled_def
lemmas rest_defs = ensure_capacity_def index_order_def level_opened_def level_closed_def cross_check_def
lemmas op_defs = add_order_internal_def add_iceberg_internal_def add_aon_internal_def
  cancel_order_internal_def modify_order_internal_def
lemmas match_defs = probe_level_def calculate_available_quantity_def fill_order_def opposite_best_def
  opposite_side_empty_def rest_residual_def match_internal_def is_aggressive_def add_order_def match_order_def
  cancel_order_def
lemmas eval_simps = consts_defs small_defs pool_defs list_defs best_defs emit_defs rest_defs op_defs
  match_defs Let_def word_sless_alt word_sle_eq upt_rec find_lowest_from_zero find_lowest_from_hit

lemma book0_eq:
  "book0 =
     \<lparr>bid_levels = (\<lambda>_. level_reset), ask_levels = (\<lambda>_. level_reset),
      bid_bitmap = (\<lambda>_. 0), ask_bitmap = (\<lambda>_. 0),
      best_bid = - 1, best_ask = 9223372036854775807, best_bid_word = - 1, best_ask_word = 0,
      bid_level_count = 0, ask_level_count = 0,
      order_pool = \<lparr>pool = (\<lambda>_. Order_zero), pool_size = 4, free_indices = [3, 2, 1, 0]\<rparr>,
      order_index = (\<lambda>_. OrderLocation_zero), order_index_size = 5000000,
      active_order_count = 0, max_order_id = 0,
      use_ring_buffer = True, emit_accepts = True, emit_cancels = True,
      batch_buffer = [], ring = [], current_timestamp = 0,
      trades_executed = 0, messages_dropped = 0, cross_reports = []\<rparr>"
  by (simp add: book0_def new_book_def new_pool_def INT64_MAX_def INITIAL_ORDER_CAPACITY_def upt_rec)

lemma book_ask_eq:
  "book_ask = book0
     \<lparr>ask_levels := (\<lambda>_. level_reset)(100 :=
        \<lparr>head = 0, tail = 0, count = 1, total_volume = 5, total_visible_volume = 5,
         total_aon_volume = 0, total_non_aon_volume = 5\<rparr>),
      ask_bitmap := (\<lambda>_. 0)(1 := 68719476736),
      best_ask := 100, best_ask_word := 1, ask_level_count := 1,
      order_pool := \<lparr>pool = (\<lambda>_. Order_zero)(0 :=
          \<lparr>order_id = 1, price = 100, quantity = 5, hidden_quantity = 0, peak_size = 0,
           o_next = NULL_INDEX, o_prev = NULL_INDEX, user_id_low = 0, flags = 0\<rparr>),
        pool_size = 4, free_indices = [3, 2, 1]\<rparr>,
      order_index := (\<lambda>_. OrderLocation_zero)(1 := \<lparr>loc_price = 100, pool_idx = 0, loc_flags = 2\<rparr>),
      active_order_count := 1, max_order_id := 1,
      batch_buffer := [OrderAccepted 0 1 False 100 5]\<rparr>"
  unfolding book_ask_def book0_eq
  by (simp add: eval_simps cong: Let_weak prod.case_cong_weak)


lemma book_swept_eq:
  "book_swept = book_ask
     \<lparr>ask_levels := (\<lambda>_. level_reset)(100 :=
        \<lparr>head = 0, tail = 0, count = 1, total_volume = 2, total_visible_volume = 2,
         total_aon_volume = 0, total_non_aon_volume = 2\<rparr>),
      order_pool := \<lparr>pool = (\<lambda>_. Order_zero)(0 :=
          \<lparr>order_id = 1, price = 100, quantity = 2, hidden_quantity = 0, peak_size = 0,
           o_next = NULL_INDEX, o_prev = NULL_INDEX, user_id_low = 0, flags = 0\<rparr>),
        pool_size = 4, free_indices = [3, 2, 1]\<rparr>,
      batch_buffer := [OrderAccepted 0 1 False 100 5, Trade 0 2 1 100 3],
      trades_executed := 1\<rparr>"
  unfolding book_swept_def book_ask_eq book0_eq
  by (simp add: eval_simps walk_level.simps match_loop.simps cong: Let_weak prod.case_cong_weak)




text \<open>
  C8, as the claim states it, fails for the plain add: with one sell of 5 resting at 100, a
  buy of 3 at the price \<^verbatim>\<open>MAX_PRICE_LEVELS\<close>, whose index is out of range, is
  aggressive and is matched before any range check; it trades 3 at 100.
\<close>

theorem C8_out_of_range_add_trades:
  "add_order 1 False 100 5 0 book0 = Some (Inr book_ask)
   \<and> MAX_PRICE_LEVELS \<le> price_to_index 33554432
   \<and> add_order 2 True 33554432 3 0 book_ask = Some (Inr book_swept)
   \<and> book_swept \<noteq> book_ask
   \<and> trades_executed book_swept = trades_executed book_ask + 1
   \<and> batch_buffer book_swept = batch_buffer book_ask @ [Trade 0 2 1 100 3]"
proof -
  have "add_order 1 False 100 5 0 book0 = Some (Inr book_ask)"
    unfolding book_ask_eq book0_eq
    by (simp add: eval_simps cong: Let_weak prod.case_cong_weak)
  moreover have "add_order 2 True 33554432 3 0 book_ask = Some (Inr book_swept)"
    unfolding book_swept_eq book_ask_eq book0_eq
    by (simp add: eval_simps walk_level.simps match_loop.simps cong: Let_weak prod.case_cong_weak)
  moreover have "trades_executed book_swept = trades_executed book_ask + 1"
    "batch_buffer book_swept = batch_buffer book_ask @ [Trade 0 2 1 100 3]"
    by (simp_all add: book_swept_eq book_ask_eq book0_eq)
  moreover from this have "book_swept \<noteq> book_ask"
    by auto
  moreover have "MAX_PRICE_LEVELS \<le> price_to_index 33554432"
    by (simp add: MAX_PRICE_LEVELS_def price_to_index_def PRICE_OFFSET_def)
  ultimately show ?thesis
    by blast
qed

text \<open>
  C8, amended: an add whose price index is out of range and that is not dispatched to
  matching (an iceberg add, an AON add, the internal plain add, and the public plain add when
  it is not aggressive) leaves the whole book, staged events included, as it was; so do a
  cancel and a modify of an order id that is beyond the order index or marked inactive.
\<close>

theorem C8_silent_noops:
  "(MAX_PRICE_LEVELS \<le> price_to_index p \<longrightarrow>
      add_order_internal oid buy p qty uid s = Inr s
      \<and> add_iceberg_internal oid buy p total_qty visible_qty uid s = Inr s
      \<and> add_aon_internal oid buy p qty uid s = Inr s
      \<and> (\<not> is_aggressive buy p s \<longrightarrow> add_order oid buy p qty uid s = Some (Inr s)))
   \<and> (order_index_size s \<le> unat oid \<or> \<not> loc_is_active (order_index s (unat oid)) \<longrightarrow>
      cancel_order oid s = s \<and> modify_order_internal oid p qty s = Inr s)"
  by (simp add: add_order_internal_def add_iceberg_internal_def add_aon_internal_def add_order_def
      cancel_order_def cancel_order_internal_def modify_order_internal_def)

theorem C8_silent_noops_witness:
  "MAX_PRICE_LEVELS \<le> price_to_index 33554432
   \<and> \<not> is_aggressive False 33554432 book_ask
   \<and> \<not> loc_is_active (order_index book_ask (unat (7 :: uint64)))
   \<and> add_order 7 False 33554432 3 0 book_ask = Some (Inr book_ask)
   \<and> add_iceberg_internal 7 False 33554432 9 3 0 book_ask = Inr book_ask
   \<and> add_aon_internal 7 False 33554432 3 0 book_ask = Inr book_ask
   \<and> cancel_order 7 book_ask = book_ask
   \<and> modify_order_internal 7 33554432 3 book_ask = Inr book_ask"
  using C8_silent_noops [of 33554432 7 False 3 0 book_ask 9 3]
  by (simp add: book_ask_eq book0_eq is_aggressive_def loc_is_active_def OrderLocation_zero_def
      MAX_PRICE_LEVELS_def price_to_index_def PRICE_OFFSET_def word_sle_eq)

text \<open>
  C4: a FOK match whose feasibility probe returns less than the requested quantity returns
  0 trades and the book it was given: levels, bitmaps, pool, order index, counters and
  staged events are all fields of that book.
\<close>

theorem C4_infeasible_fok_is_noop:
  assumes "calculate_available_quantity buy p qty s = Some available"
    and "available <s qty"
  shows "match_internal oid buy p qty FOK s = Some (Inr (0, s))
         \<and> match_order oid buy p qty FOK s = Some (Inr s)"
  using assms by (simp add: match_internal_def match_order_def)

theorem C4_infeasible_fok_is_noop_witness:
  "calculate_available_quantity True 100 6 book_ask = Some 5 \<and> (5 :: int64) <s 6
   \<and> match_internal 9 True 100 6 FOK book_ask = Some (Inr (0, book_ask))
   \<and> match_order 9 True 100 6 FOK book_ask = Some (Inr book_ask)"
proof -
  have probe: "calculate_available_quantity True 100 6 book_ask = Some 5"
    unfolding book_ask_eq book0_eq
    by (simp add: eval_simps probe_asks.simps cong: Let_weak prod.case_cong_weak)
  have less: "(5 :: int64) <s 6"
    by simp
  from C4_infeasible_fok_is_noop [OF probe less, of 9] probe less show ?thesis
    by simp
qed

lemma set_flag_simps [simp]:
  "(set_aon False (set_buy b 0) AND 2 = 0)"
  "(set_aon True (set_buy b 0) AND 2 \<noteq> 0)"
  "(set_aon a (set_buy b 0) AND 1 \<noteq> 0) = b"
  "(set_active True (set_buy b 0) AND 2 \<noteq> 0)"
  "(set_active a (set_buy b 0) AND 1 \<noteq> 0) = b"
  by (cases a; cases b; simp add: set_aon_def set_buy_def set_active_def)+

lemma set_active_False [simp]: "set_active False f AND 2 = 0"
  by (simp add: set_active_def and.assoc)

lemma flush_batch_frame [simp]:
  "bid_levels (flush_batch s) = bid_levels s"
  "ask_levels (flush_batch s) = ask_levels s"
  "bid_bitmap (flush_batch s) = bid_bitmap s"
  "ask_bitmap (flush_batch s) = ask_bitmap s"
  "best_bid (flush_batch s) = best_bid s"
  "best_ask (flush_batch s) = best_ask s"
  "best_bid_word (flush_batch s) = best_bid_word s"
  "best_ask_word (flush_batch s) = best_ask_word s"
  "bid_level_count (flush_batch s) = bid_level_count s"
  "ask_level_count (flush_batch s) = ask_level_count s"
  "order_pool (flush_batch s) = order_pool s"
  "order_index (flush_batch s) = order_index s"
  "order_index_size (flush_batch s) = order_index_size s"
  "active_order_count (flush_batch s) = active_order_count s"
  "max_order_id (flush_batch s) = max_order_id s"
  "use_ring_buffer (flush_batch s) = use_ring_buffer s"
  "emit_accepts (flush_batch s) = emit_accepts s"
  "emit_cancels (flush_batch s) = emit_cancels s"
  "current_timestamp (flush_batch s) = current_timestamp s"
  "trades_executed (flush_batch s) = trades_executed s"
  "cross_reports (flush_batch s) = cross_reports s"
  by (simp_all add: flush_batch_def push_batch_def Let_def split: prod.splits)

lemma stage_frame [simp]:
  "bid_levels (stage msg s) = bid_levels s"
  "ask_levels (stage msg s) = ask_levels s"
  "bid_bitmap (stage msg s) = bid_bitmap s"
  "ask_bitmap (stage msg s) = ask_bitmap s"
  "best_bid (stage msg s) = best_bid s"
  "best_ask (stage msg s) = best_ask s"
  "best_bid_word (stage msg s) = best_bid_word s"
  "best_ask_word (stage msg s) = best_ask_word s"
  "bid_level_count (stage msg s) = bid_level_count s"
  "ask_level_count (stage msg s) = ask_level_count s"
  "order_pool (stage msg s) = order_pool s"
  "order_index (stage msg s) = order_index s"
  "order_index_size (stage msg s) = order_index_size s"
  "active_order_count (stage msg s) = active_order_count s"
  "max_order_id (stage msg s) = max_order_id s"
  "use_ring_buffer (stage msg s) = use_ring_buffer s"
  "emit_accepts (stage msg s) = emit_accepts s"
  "emit_cancels (stage msg s) = emit_cancels s"
  "current_timestamp (stage msg s) = current_timestamp s"
  "trades_executed (stage msg s) = trades_executed s"
  "cross_reports (stage msg s) = cross_reports s"
  by (simp_all add: stage_def Let_def)

lemma emit_trade_frame [simp]:
  "bid_levels (emit_trade buy_id sell_id p qty s) = bid_levels s"
  "ask_levels (emit_trade buy_id sell_id p qty s) = ask_levels s"
  "bid_bitmap (emit_trade buy_id sell_id p qty s) = bid_bitmap s"
  "ask_bitmap (emit_trade buy_id sell_id p qty s) = ask_bitmap s"
  "best_bid (emit_trade buy_id sell_id p qty s) = best_bid s"
  "best_ask (emit_trade buy_id sell_id p qty s) = best_ask s"
  "best_bid_word (emit_trade buy_id sell_id p qty s) = best_bid_word s"
  "best_ask_word (emit_trade buy_id sell_id p qty s) = best_ask_word s"
  "bid_level_count (emit_trade buy_id sell_id p qty s) = bid_level_count s"
  "ask_level_count (emit_trade buy_id sell_id p qty s) = ask_level_count s"
  "order_pool (emit_trade buy_id sell_id p qty s) = order_pool s"
  "order_index (emit_trade buy_id sell_id p qty s) = order_index s"
  "order_index_size (emit_trade buy_id sell_id p qty s) = order_index_size s"
  "active_order_count (emit_trade buy_id sell_id p qty s) = active_order_count s"
  "max_order_id (emit_trade buy_id sell_id p qty s) = max_order_id s"
  "use_ring_buffer (emit_trade buy_id sell_id p qty s) = use_ring_buffer s"
  "emit_accepts (emit_trade buy_id sell_id p qty s) = emit_accepts s"
  "emit_cancels (emit_trade buy_id sell_id p qty s) = emit_cancels s"
  "current_timestamp (emit_trade buy_id sell_id p qty s) = current_timestamp s"
  "cross_reports (emit_trade buy_id sell_id p qty s) = cross_reports s"
  by (simp_all add: emit_trade_def Let_def)

lemma emit_order_accepted_frame [simp]:
  "bid_levels (emit_order_accepted oid side p qty s) = bid_levels s"
  "ask_levels (emit_order_accepted oid side p qty s) = ask_levels s"
  "bid_bitmap (emit_order_accepted oid side p qty s) = bid_bitmap s"
  "ask_bitmap (emit_order_accepted oid side p qty s) = ask_bitmap s"
  "best_bid (emit_order_accepted oid side p qty s) = best_bid s"
  "best_ask (emit_order_accepted oid side p qty s) = best_ask s"
  "best_bid_word (emit_order_accepted oid side p qty s) = best_bid_word s"
  "best_ask_word (emit_order_accepted oid side p qty s) = best_ask_word s"
  "bid_level_count (emit_order_accepted oid side p qty s) = bid_level_count s"
  "ask_level_count (emit_order_accepted oid side p qty s) = ask_level_count s"
  "order_pool (emit_order_accepted oid side p qty s) = order_pool s"
  "order_index (emit_order_accepted oid side p qty s) = order_index s"
  "order_index_size (emit_order_accepted oid side p qty s) = order_index_size s"
  "active_order_count (emit_order_accepted oid side p qty s) = active_order_count s"
  "max_order_id (emit_order_accepted oid side p qty s) = max_order_id s"
  "use_ring_buffer (emit_order_accepted oid side p qty s) = use_ring_buffer s"
  "emit_accepts (emit_order_accepted oid side p qty s) = emit_accepts s"
  "emit_cancels (emit_order_accepted oid side p qty s) = emit_cancels s"
  "current_timestamp (emit_order_accepted oid side p qty s) = current_timestamp s"
  "trades_executed (emit_order_accepted oid side p qty s) = trades_executed s"
  "cross_reports (emit_order_accepted oid side p qty s) = cross_reports s"
  by (simp_all add: emit_order_accepted_def)

lemma emit_order_cancelled_frame [simp]:
  "bid_levels (emit_order_cancelled oid qty s) = bid_levels s"
  "ask_levels (emit_order_cancelled oid qty s) = ask_levels s"
  "bid_bitmap (emit_order_cancelled oid qty s) = bid_bitmap s"
  "ask_bitmap (emit_order_cancelled oid qty s) = ask_bitmap s"
  "best_bid (emit_order_cancelled oid qty s) = best_bid s"
  "best_ask (emit_order_cancelled oid qty s) = best_ask s"
  "best_bid_word (emit_order_cancelled oid qty s) = best_bid_word s"
  "best_ask_word (emit_order_cancelled oid qty s) = best_ask_word s"
  "bid_level_count (emit_order_cancelled oid qty s) = bid_level_count s"
  "ask_level_count (emit_order_cancelled oid qty s) = ask_level_count s"
  "order_pool (emit_order_cancelled oid qty s) = order_pool s"
  "order_index (emit_order_cancelled oid qty s) = order_index s"
  "order_index_size (emit_order_cancelled oid qty s) = order_index_size s"
  "active_order_count (emit_order_cancelled oid qty s) = active_order_count s"
  "max_order_id (emit_order_cancelled oid qty s) = max_order_id s"
  "use_ring_buffer (emit_order_cancelled oid qty s) = use_ring_buffer s"
  "emit_accepts (emit_order_cancelled oid qty s) = emit_accepts s"
  "emit_cancels (emit_order_cancelled oid qty s) = emit_cancels s"
  "current_timestamp (emit_order_cancelled oid qty s) = current_timestamp s"
  "trades_executed (emit_order_cancelled oid qty s) = trades_executed s"
  "cross_reports (emit_order_cancelled oid qty s) = cross_reports s"
  by (simp_all add: emit_order_cancelled_def)

lemma cross_check_frame [simp]:
  "bid_levels (cross_check s) = bid_levels s"
  "ask_levels (cross_check s) = ask_levels s"
  "bid_bitmap (cross_check s) = bid_bitmap s"
  "ask_bitmap (cross_check s) = ask_bitmap s"
  "best_bid (cross_check s) = best_bid s"
  "best_ask (cross_check s) = best_ask s"
  "best_bid_word (cross_check s) = best_bid_word s"
  "best_ask_word (cross_check s) = best_ask_word s"
  "bid_level_count (cross_check s) = bid_level_count s"
  "ask_level_count (cross_check s) = ask_level_count s"
  "order_pool (cross_check s) = order_pool s"
  "order_index (cross_check s) = order_index s"
  "order_index_size (cross_check s) = order_index_size s"
  "active_order_count (cross_check s) = active_order_count s"
  "max_order_id (cross_check s) = max_order_id s"
  "use_ring_buffer (cross_check s) = use_ring_buffer s"
  "emit_accepts (cross_check s) = emit_accepts s"
  "emit_cancels (cross_check s) = emit_cancels s"
  "batch_buffer (cross_check s) = batch_buffer s"
  "ring (cross_check s) = ring s"
  "current_timestamp (cross_check s) = current_timestamp s"
  "trades_executed (cross_check s) = trades_executed s"
  "messages_dropped (cross_check s) = messages_dropped s"
  by (simp_all add: cross_check_def)

lemma update_best_bid_after_add_frame [simp]:
  "bid_levels (update_best_bid_after_add p s) = bid_levels s"
  "ask_levels (update_best_bid_after_add p s) = ask_levels s"
  "ask_bitmap (update_best_bid_after_add p s) = ask_bitmap s"
  "best_ask (update_best_bid_after_add p s) = best_ask s"
  "best_ask_word (update_best_bid_after_add p s) = best_ask_word s"
  "bid_level_count (update_best_bid_after_add p s) = bid_level_count s"
  "ask_level_count (update_best_bid_after_add p s) = ask_level_count s"
  "order_pool (update_best_bid_after_add p s) = order_pool s"
  "order_index (update_best_bid_after_add p s) = order_index s"
  "order_index_size (update_best_bid_after_add p s) = order_index_size s"
  "active_order_count (update_best_bid_after_add p s) = active_order_count s"
  "max_order_id (update_best_bid_after_add p s) = max_order_id s"
  "use_ring_buffer (update_best_bid_after_add p s) = use_ring_buffer s"
  "emit_accepts (update_best_bid_after_add p s) = emit_accepts s"
  "emit_cancels (update_best_bid_after_add p s) = emit_cancels s"
  "batch_buffer (update_best_bid_after_add p s) = batch_buffer s"
  "ring (update_best_bid_after_add p s) = ring s"
  "current_timestamp (update_best_bid_after_add p s) = current_timestamp s"
  "trades_executed (update_best_bid_after_add p s) = trades_executed s"
  "messages_dropped (update_best_bid_after_add p s) = messages_dropped s"
  "cross_reports (update_best_bid_after_add p s) = cross_reports s"
  by (simp_all add: update_best_bid_after_add_def Let_def)

lemma update_best_ask_after_add_frame [simp]:
  "bid_levels (update_best_ask_after_add p s) = bid_levels s"
  "ask_levels (update_best_ask_after_add p s) = ask_levels s"
  "bid_bitmap (update_best_ask_after_add p s) = bid_bitmap s"
  "best_bid (update_best_ask_after_add p s) = best_bid s"
  "best_bid_word (update_best_ask_after_add p s) = best_bid_word s"
  "bid_level_count (update_best_ask_after_add p s) = bid_level_count s"
  "ask_level_count (update_best_ask_after_add p s) = ask_level_count s"
  "order_pool (update_best_ask_after_add p s) = order_pool s"
  "order_index (update_best_ask_after_add p s) = order_index s"
  "order_index_size (update_best_ask_after_add p s) = order_index_size s"
  "active_order_count (update_best_ask_after_add p s) = active_order_count s"
  "max_order_id (update_best_ask_after_add p s) = max_order_id s"
  "use_ring_buffer (update_best_ask_after_add p s) = use_ring_buffer s"
  "emit_accepts (update_best_ask_after_add p s) = emit_accepts s"
  "emit_cancels (update_best_ask_after_add p s) = emit_cancels s"
  "batch_buffer (update_best_ask_after_add p s) = batch_buffer s"
  "ring (update_best_ask_after_add p s) = ring s"
  "current_timestamp (update_best_ask_after_add p s) = current_timestamp s"
  "trades_executed (update_best_ask_after_add p s) = trades_executed s"
  "messages_dropped (update_best_ask_after_add p s) = messages_dropped s"
  "cross_reports (update_best_ask_after_add p s) = cross_reports s"
  by (simp_all add: update_best_ask_after_add_def Let_def)

lemma update_best_bid_after_remove_frame [simp]:
  "bid_levels (update_best_bid_after_remove p s) = bid_levels s"
  "ask_levels (update_best_bid_after_remove p s) = ask_levels s"
  "ask_bitmap (update_best_bid_after_remove p s) = ask_bitmap s"
  "best_ask (update_best_bid_after_remove p s) = best_ask s"
  "best_ask_word (update_best_bid_after_remove p s) = best_ask_word s"
  "bid_level_count (update_best_bid_after_remove p s) = bid_level_count s"
  "ask_level_count (update_best_bid_after_remove p s) = ask_level_count s"
  "order_pool (update_best_bid_after_remove p s) = order_pool s"
  "order_index (update_best_bid_after_remove p s) = order_index s"
  "order_index_size (update_best_bid_after_remove p s) = order_index_size s"
  "active_order_count (update_best_bid_after_remove p s) = active_order_count s"
  "max_order_id (update_best_bid_after_remove p s) = max_order_id s"
  "use_ring_buffer (update_best_bid_after_remove p s) = use_ring_buffer s"
  "emit_accepts (update_best_bid_after_remove p s) = emit_accepts s"
  "emit_cancels (update_best_bid_after_remove p s) = emit_cancels s"
  "batch_buffer (update_best_bid_after_remove p s) = batch_buffer s"
  "ring (update_best_bid_after_remove p s) = ring s"
  "current_timestamp (update_best_bid_after_remove p s) = current_timestamp s"
  "trades_executed (update_best_bid_after_remove p s) = trades_executed s"
  "messages_dropped (update_best_bid_after_remove p s) = messages_dropped s"
  "cross_reports (update_best_bid_after_remove p s) = cross_reports s"
  by (simp_all add: update_best_bid_after_remove_def Let_def)

lemma update_best_ask_after_remove_frame [simp]:
  "bid_levels (update_best_ask_after_remove p s) = bid_levels s"
  "ask_levels (update_best_ask_after_remove p s) = ask_levels s"
  "bid_bitmap (update_best_ask_after_remove p s) = bid_bitmap s"
  "best_bid (update_best_ask_after_remove p s) = best_bid s"
  "best_bid_word (update_best_ask_after_remove p s) = best_bid_word s"
  "bid_level_count (update_best_ask_after_remove p s) = bid_level_count s"
  "ask_level_count (update_best_ask_after_remove p s) = ask_level_count s"
  "order_pool (update_best_ask_after_remove p s) = order_pool s"
  "order_index (update_best_ask_after_remove p s) = order_index s"
  "order_index_size (update_best_ask_after_remove p s) = order_index_size s"
  "active_order_count (update_best_ask_after_remove p s) = active_order_count s"
  "max_order_id (update_best_ask_after_remove p s) = max_order_id s"
  "use_ring_buffer (update_best_ask_after_remove p s) = use_ring_buffer s"
  "emit_accepts (update_best_ask_after_remove p s) = emit_accepts s"
  "emit_cancels (update_best_ask_after_remove p s) = emit_cancels s"
  "batch_buffer (update_best_ask_after_remove p s) = batch_buffer s"
  "ring (update_best_ask_after_remove p s) = ring s"
  "current_timestamp (update_best_ask_after_remove p s) = current_timestamp s"
  "trades_executed (update_best_ask_after_remove p s) = trades_executed s"
  "messages_dropped (update_best_ask_after_remove p s) = messages_dropped s"
  "cross_reports (update_best_ask_after_remove p s) = cross_reports s"
  by (simp_all add: update_best_ask_after_remove_def Let_def)

lemma level_opened_frame [simp]:
  "bid_levels (level_opened buy p s) = bid_levels s"
  "ask_levels (level_opened buy p s) = ask_levels s"
  "order_pool (level_opened buy p s) = order_pool s"
  "order_index (level_opened buy p s) = order_index s"
  "order_index_size (level_opened buy p s) = order_index_size s"
  "active_order_count (level_opened buy p s) = active_order_count s"
  "max_order_id (level_opened buy p s) = max_order_id s"
  "use_ring_buffer (level_opened buy p s) = use_ring_buffer s"
  "emit_accepts (level_opened buy p s) = emit_accepts s"
  "emit_cancels (level_opened buy p s) = emit_cancels s"
  "batch_buffer (level_opened buy p s) = batch_buffer s"
  "ring (level_opened buy p s) = ring s"
  "current_timestamp (level_opened buy p s) = current_timestamp s"
  "trades_executed (level_opened buy p s) = trades_executed s"
  "messages_dropped (level_opened buy p s) = messages_dropped s"
  "cross_reports (level_opened buy p s) = cross_reports s"
  by (simp_all add: level_opened_def)

lemma level_closed_frame [simp]:
  "bid_levels (level_closed buy p s) = bid_levels s"
  "ask_levels (level_closed buy p s) = ask_levels s"
  "order_pool (level_closed buy p s) = order_pool s"
  "order_index (level_closed buy p s) = order_index s"
  "order_index_size (level_closed buy p s) = order_index_size s"
  "active_order_count (level_closed buy p s) = active_order_count s"
  "max_order_id (level_closed buy p s) = max_order_id s"
  "use_ring_buffer (level_closed buy p s) = use_ring_buffer s"
  "emit_accepts (level_closed buy p s) = emit_accepts s"
  "emit_cancels (level_closed buy p s) = emit_cancels s"
  "batch_buffer (level_closed buy p s) = batch_buffer s"
  "ring (level_closed buy p s) = ring s"
  "current_timestamp (level_closed buy p s) = current_timestamp s"
  "trades_executed (level_closed buy p s) = trades_executed s"
  "messages_dropped (level_closed buy p s) = messages_dropped s"
  "cross_reports (level_closed buy p s) = cross_reports s"
  by (simp_all add: level_closed_def)

lemma ensure_capacity_frame [simp]:
  "bid_levels (ensure_capacity oid s) = bid_levels s"
  "ask_levels (ensure_capacity oid s) = ask_levels s"
  "bid_bitmap (ensure_capacity oid s) = bid_bitmap s"
  "ask_bitmap (ensure_capacity oid s) = ask_bitmap s"
  "best_bid (ensure_capacity oid s) = best_bid s"
  "best_ask (ensure_capacity oid s) = best_ask s"
  "best_bid_word (ensure_capacity oid s) = best_bid_word s"
  "best_ask_word (ensure_capacity oid s) = best_ask_word s"
  "bid_level_count (ensure_capacity oid s) = bid_level_count s"
  "ask_level_count (ensure_capacity oid s) = ask_level_count s"
  "order_pool (ensure_capacity oid s) = order_pool s"
  "active_order_count (ensure_capacity oid s) = active_order_count s"
  "use_ring_buffer (ensure_capacity oid s) = use_ring_buffer s"
  "emit_accepts (ensure_capacity oid s) = emit_accepts s"
  "emit_cancels (ensure_capacity oid s) = emit_cancels s"
  "batch_buffer (ensure_capacity oid s) = batch_buffer s"
  "ring (ensure_capacity oid s) = ring s"
  "current_timestamp (ensure_capacity oid s) = current_timestamp s"
  "trades_executed (ensure_capacity oid s) = trades_executed s"
  "messages_dropped (ensure_capacity oid s) = messages_dropped s"
  "cross_reports (ensure_capacity oid s) = cross_reports s"
  by (simp_all add: ensure_capacity_def Let_def)

lemma set_level_frame [simp]:
  "bid_bitmap (set_level bid li l s) = bid_bitmap s"
  "ask_bitmap (set_level bid li l s) = ask_bitmap s"
  "best_bid (set_level bid li l s) = best_bid s"
  "best_ask (set_level bid li l s) = best_ask s"
  "best_bid_word (set_level bid li l s) = best_bid_word s"
  "best_ask_word (set_level bid li l s) = best_ask_word s"
  "bid_level_count (set_level bid li l s) = bid_level_count s"
  "ask_level_count (set_level bid li l s) = ask_level_count s"
  "order_pool (set_level bid li l s) = order_pool s"
  "order_index (set_level bid li l s) = order_index s"
  "order_index_size (set_level bid li l s) = order_index_size s"
  "active_order_count (set_level bid li l s) = active_order_count s"
  "max_order_id (set_level bid li l s) = max_order_id s"
  "use_ring_buffer (set_level bid li l s) = use_ring_buffer s"
  "emit_accepts (set_level bid li l s) = emit_accepts s"
  "emit_cancels (set_level bid li l s) = emit_cancels s"
  "batch_buffer (set_level bid li l s) = batch_buffer s"
  "ring (set_level bid li l s) = ring s"
  "current_timestamp (set_level bid li l s) = current_timestamp s"
  "trades_executed (set_level bid li l s) = trades_executed s"
  "messages_dropped (set_level bid li l s) = messages_dropped s"
  "cross_reports (set_level bid li l s) = cross_reports s"
  by (simp_all add: set_level_def)

lemma set_order_frame [simp]:
  "bid_levels (set_order idx ord s) = bid_levels s"
  "ask_levels (set_order idx ord s) = ask_levels s"
  "bid_bitmap (set_order idx ord s) = bid_bitmap s"
  "ask_bitmap (set_order idx ord s) = ask_bitmap s"
  "best_bid (set_order idx ord s) = best_bid s"
  "best_ask (set_order idx ord s) = best_ask s"
  "best_bid_word (set_order idx ord s) = best_bid_word s"
  "best_ask_word (set_order idx ord s) = best_ask_word s"
  "bid_level_count (set_order idx ord s) = bid_level_count s"
  "ask_level_count (set_order idx ord s) = ask_level_count s"
  "order_index (set_order idx ord s) = order_index s"
  "order_index_size (set_order idx ord s) = order_index_size s"
  "active_order_count (set_order idx ord s) = active_order_count s"
  "max_order_id (set_order idx ord s) = max_order_id s"
  "use_ring_buffer (set_order idx ord s) = use_ring_buffer s"
  "emit_accepts (set_order idx ord s) = emit_accepts s"
  "emit_cancels (set_order idx ord s) = emit_cancels s"
  "batch_buffer (set_order idx ord s) = batch_buffer s"
  "ring (set_order idx ord s) = ring s"
  "current_timestamp (set_order idx ord s) = current_timestamp s"
  "trades_executed (set_order idx ord s) = trades_executed s"
  "messages_dropped (set_order idx ord s) = messages_dropped s"
  "cross_reports (set_order idx ord s) = cross_reports s"
  by (simp_all add: set_order_def)

lemma add_to_level_volume_frame [simp]:
  "bid_bitmap (add_to_level_volume bid li ord s) = bid_bitmap s"
  "ask_bitmap (add_to_level_volume bid li ord s) = ask_bitmap s"
  "best_bid (add_to_level_volume bid li ord s) = best_bid s"
  "best_ask (add_to_level_volume bid li ord s) = best_ask s"
  "best_bid_word (add_to_level_volume bid li ord s) = best_bid_word s"
  "best_ask_word (add_to_level_volume bid li ord s) = best_ask_word s"
  "bid_level_count (add_to_level_volume bid li ord s) = bid_level_count s"
  "ask_level_count (add_to_level_volume bid li ord s) = ask_level_count s"
  "order_pool (add_to_level_volume bid li ord s) = order_pool s"
  "order_index (add_to_level_volume bid li ord s) = order_index s"
  "order_index_size (add_to_level_volume bid li ord s) = order_index_size s"
  "active_order_count (add_to_level_volume bid li ord s) = active_order_count s"
  "max_order_id (add_to_level_volume bid li ord s) = max_order_id s"
  "use_ring_buffer (add_to_level_volume bid li ord s) = use_ring_buffer s"
  "emit_accepts (add_to_level_volume bid li ord s) = emit_accepts s"
  "emit_cancels (add_to_level_volume bid li ord s) = emit_cancels s"
  "batch_buffer (add_to_level_volume bid li ord s) = batch_buffer s"
  "ring (add_to_level_volume bid li ord s) = ring s"
  "current_timestamp (add_to_level_volume bid li ord s) = current_timestamp s"
  "trades_executed (add_to_level_volume bid li ord s) = trades_executed s"
  "messages_dropped (add_to_level_volume bid li ord s) = messages_dropped s"
  "cross_reports (add_to_level_volume bid li ord s) = cross_reports s"
  by (simp_all add: add_to_level_volume_def Let_def)

lemma remove_from_level_volume_frame [simp]:
  "bid_bitmap (remove_from_level_volume bid li ord s) = bid_bitmap s"
  "ask_bitmap (remove_from_level_volume bid li ord s) = ask_bitmap s"
  "best_bid (remove_from_level_volume bid li ord s) = best_bid s"
  "best_ask (remove_from_level_volume bid li ord s) = best_ask s"
  "best_bid_word (remove_from_level_volume bid li ord s) = best_bid_word s"
  "best_ask_word (remove_from_level_volume bid li ord s) = best_ask_word s"
  "bid_level_count (remove_from_level_volume bid li ord s) = bid_level_count s"
  "ask_level_count (remove_from_level_volume bid li ord s) = ask_level_count s"
  "order_pool (remove_from_level_volume bid li ord s) = order_pool s"
  "order_index (remove_from_level_volume bid li ord s) = order_index s"
  "order_index_size (remove_from_level_volume bid li ord s) = order_index_size s"
  "active_order_count (remove_from_level_volume bid li ord s) = active_order_count s"
  "max_order_id (remove_from_level_volume bid li ord s) = max_order_id s"
  "use_ring_buffer (remove_from_level_volume bid li ord s) = use_ring_buffer s"
  "emit_accepts (remove_from_level_volume bid li ord s) = emit_accepts s"
  "emit_cancels (remove_from_level_volume bid li ord s) = emit_cancels s"
  "batch_buffer (remove_from_level_volume bid li ord s) = batch_buffer s"
  "ring (remove_from_level_volume bid li ord s) = ring s"
  "current_timestamp (remove_from_level_volume bid li ord s) = current_timestamp s"
  "trades_executed (remove_from_level_volume bid li ord s) = trades_executed s"
  "messages_dropped (remove_from_level_volume bid li ord s) = messages_dropped s"
  "cross_reports (remove_from_level_volume bid li ord s) = cross_reports s"
  by (simp_all add: remove_from_level_volume_def Let_def)

lemma adjust_level_volume_frame [simp]:
  "bid_bitmap (adjust_level_volume bid li vd hdl aon s) = bid_bitmap s"
  "ask_bitmap (adjust_level_volume bid li vd hdl aon s) = ask_bitmap s"
  "best_bid (adjust_level_volume bid li vd hdl aon s) = best_bid s"
  "best_ask (adjust_level_volume bid li vd hdl aon s) = best_ask s"
  "best_bid_word (adjust_level_volume bid li vd hdl aon s) = best_bid_word s"
  "best_ask_word (adjust_level_volume bid li vd hdl aon s) = best_ask_word s"
  "bid_level_count (adjust_level_volume bid li vd hdl aon s) = bid_level_count s"
  "ask_level_count (adjust_level_volume bid li vd hdl aon s) = ask_level_count s"
  "order_pool (adjust_level_volume bid li vd hdl aon s) = order_pool s"
  "order_index (adjust_level_volume bid li vd hdl aon s) = order_index s"
  "order_index_size (adjust_level_volume bid li vd hdl aon s) = order_index_size s"
  "active_order_count (adjust_level_volume bid li vd hdl aon s) = active_order_count s"
  "max_order_id (adjust_level_volume bid li vd hdl aon s) = max_order_id s"
  "use_ring_buffer (adjust_level_volume bid li vd hdl aon s) = use_ring_buffer s"
  "emit_accepts (adjust_level_volume bid li vd hdl aon s) = emit_accepts s"
  "emit_cancels (adjust_level_volume bid li vd hdl aon s) = emit_cancels s"
  "batch_buffer (adjust_level_volume bid li vd hdl aon s) = batch_buffer s"
  "ring (adjust_level_volume bid li vd hdl aon s) = ring s"
  "current_timestamp (adjust_level_volume bid li vd hdl aon s) = current_timestamp s"
  "trades_executed (adjust_level_volume bid li vd hdl aon s) = trades_executed s"
  "messages_dropped (adjust_level_volume bid li vd hdl aon s) = messages_dropped s"
  "cross_reports (adjust_level_volume bid li vd hdl aon s) = cross_reports s"
  by (simp_all add: adjust_level_volume_def Let_def)

lemma list_push_back_frame [simp]:
  "bid_bitmap (list_push_back bid li idx s) = bid_bitmap s"
  "ask_bitmap (list_push_back bid li idx s) = ask_bitmap s"
  "best_bid (list_push_back bid li idx s) = best_bid s"
  "best_ask (list_push_back bid li idx s) = best_ask s"
  "best_bid_word (list_push_back bid li idx s) = best_bid_word s"
  "best_ask_word (list_push_back bid li idx s) = best_ask_word s"
  "bid_level_count (list_push_back bid li idx s) = bid_level_count s"
  "ask_level_count (list_push_back bid li idx s) = ask_level_count s"
  "order_index (list_push_back bid li idx s) = order_index s"
  "order_index_size (list_push_back bid li idx s) = order_index_size s"
  "active_order_count (list_push_back bid li idx s) = active_order_count s"
  "max_order_id (list_push_back bid li idx s) = max_order_id s"
  "use_ring_buffer (list_push_back bid li idx s) = use_ring_buffer s"
  "emit_accepts (list_push_back bid li idx s) = emit_accepts s"
  "emit_cancels (list_push_back bid li idx s) = emit_cancels s"
  "batch_buffer (list_push_back bid li idx s) = batch_buffer s"
  "ring (list_push_back bid li idx s) = ring s"
  "current_timestamp (list_push_back bid li idx s) = current_timestamp s"
  "trades_executed (list_push_back bid li idx s) = trades_executed s"
  "messages_dropped (list_push_back bid li idx s) = messages_dropped s"
  "cross_reports (list_push_back bid li idx s) = cross_reports s"
  by (simp_all add: list_push_back_def Let_def)

lemma list_remove_frame [simp]:
  "bid_bitmap (list_remove bid li idx s) = bid_bitmap s"
  "ask_bitmap (list_remove bid li idx s) = ask_bitmap s"
  "best_bid (list_remove bid li idx s) = best_bid s"
  "best_ask (list_remove bid li idx s) = best_ask s"
  "best_bid_word (list_remove bid li idx s) = best_bid_word s"
  "best_ask_word (list_remove bid li idx s) = best_ask_word s"
  "bid_level_count (list_remove bid li idx s) = bid_level_count s"
  "ask_level_count (list_remove bid li idx s) = ask_level_count s"
  "order_index (list_remove bid li idx s) = order_index s"
  "order_index_size (list_remove bid li idx s) = order_index_size s"
  "active_order_count (list_remove bid li idx s) = active_order_count s"
  "max_order_id (list_remove bid li idx s) = max_order_id s"
  "use_ring_buffer (list_remove bid li idx s) = use_ring_buffer s"
  "emit_accepts (list_remove bid li idx s) = emit_accepts s"
  "emit_cancels (list_remove bid li idx s) = emit_cancels s"
  "batch_buffer (list_remove bid li idx s) = batch_buffer s"
  "ring (list_remove bid li idx s) = ring s"
  "current_timestamp (list_remove bid li idx s) = current_timestamp s"
  "trades_executed (list_remove bid li idx s) = trades_executed s"
  "messages_dropped (list_remove bid li idx s) = messages_dropped s"
  "cross_reports (list_remove bid li idx s) = cross_reports s"
  by (simp_all add: list_remove_def Let_def)

lemma flush_batch_keeps [simp]:
  "get_level b i (flush_batch s) = get_level b i s"
  "order_at (flush_batch s) j = order_at s j"
  by (simp_all add: get_level_def order_at_def)

lemma stage_keeps [simp]:
  "get_level b i (stage msg s) = get_level b i s"
  "order_at (stage msg s) j = order_at s j"
  by (simp_all add: get_level_def order_at_def)

lemma emit_trade_keeps [simp]:
  "get_level b i (emit_trade buy_id sell_id p qty s) = get_level b i s"
  "order_at (emit_trade buy_id sell_id p qty s) j = order_at s j"
  by (simp_all add: get_level_def order_at_def)

lemma emit_order_accepted_keeps [simp]:
  "get_level b i (emit_order_accepted oid side p qty s) = get_level b i s"
  "order_at (emit_order_accepted oid side p qty s) j = order_at s j"
  by (simp_all add: get_level_def order_at_def)

lemma emit_order_cancelled_keeps [simp]:
  "get_level b i (emit_order_cancelled oid qty s) = get_level b i s"
  "order_at (emit_order_cancelled oid qty s) j = order_at s j"
  by (simp_all add: get_level_def order_at_def)

lemma cross_check_keeps [simp]:
  "get_level b i (cross_check s) = get_level b i s"
  "order_at (cross_check s) j = order_at s j"
  by (simp_all add: get_level_def order_at_def)

lemma update_best_bid_after_add_keeps [simp]:
  "get_level b i (update_best_bid_after_add p s) = get_level b i s"
  "order_at (update_best_bid_after_add p s) j = order_at s j"
  by (simp_all add: get_level_def order_at_def)

lemma update_best_ask_after_add_keeps [simp]:
  "get_level b i (update_best_ask_after_add p s) = get_level b i s"
  "order_at (update_best_ask_after_add p s) j = order_at s j"
  by (simp_all add: get_level_def order_at_def)

lemma update_best_bid_after_remove_keeps [simp]:
  "get_level b i (update_best_bid_after_remove p s) = get_level b i s"
  "order_at (update_best_bid_after_remove p s) j = order_at s j"
  by (simp_all add: get_level_def order_at_def)

lemma update_best_ask_after_remove_keeps [simp]:
  "get_level b i (update_best_ask_after_remove p s) = get_level b i s"
  "order_at (update_best_ask_after_remove p s) j = order_at s j"
  by (simp_all add: get_level_def order_at_def)

lemma level_opened_keeps [simp]:
  "get_level b i (level_opened buy p s) = get_level b i s"
  "order_at (level_opened buy p s) j = order_at s j"
  by (simp_all add: get_level_def order_at_def)

lemma level_closed_keeps [simp]:
  "get_level b i (level_closed buy p s) = get_level b i s"
  "order_at (level_closed buy p s) j = order_at s j"
  by (simp_all add: get_level_def order_at_def)

lemma ensure_capacity_keeps [simp]:
  "get_level b i (ensure_capacity oid s) = get_level b i s"
  "order_at (ensure_capacity oid s) j = order_at s j"
  by (simp_all add: get_level_def order_at_def)

lemma set_level_keeps [simp]:
  "order_at (set_level bid li l s) j = order_at s j"
  by (simp add: order_at_def)

lemma add_to_level_volume_keeps [simp]:
  "order_at (add_to_level_volume bid li ord s) j = order_at s j"
  by (simp add: order_at_def)

lemma remove_from_level_volume_keeps [simp]:
  "order_at (remove_from_level_volume bid li ord s) j = order_at s j"
  by (simp add: order_at_def)

lemma adjust_level_volume_keeps [simp]:
  "order_at (adjust_level_volume bid li vd hdl aon s) j = order_at s j"
  by (simp add: order_at_def)

lemma set_order_effect [simp]:
  "order_at (set_order idx ord s) j = (if j = idx then ord else order_at s j)"
  "get_level b i (set_order idx ord s) = get_level b i s"
  "pool_size (order_pool (set_order idx ord s)) = pool_size (order_pool s)"
  "free_indices (order_pool (set_order idx ord s)) = free_indices (order_pool s)"
  by (simp_all add: set_order_def order_at_def get_level_def)

lemma set_level_effect [simp]:
  "get_level b i (set_level bid li l s) = (if b = bid \<and> i = li then l else get_level b i s)"
  by (simp add: set_level_def get_level_def)

lemma add_to_level_volume_effect [simp]:
  "get_level b i (add_to_level_volume bid li ord s) =
     (if b = bid \<and> i = li
      then (get_level bid li s)
             \<lparr>total_volume := total_volume (get_level bid li s) + (quantity ord + hidden_quantity ord),
              total_visible_volume := total_visible_volume (get_level bid li s) + quantity ord,
              total_aon_volume := total_aon_volume (get_level bid li s)
                 + (if is_aon ord then quantity ord + hidden_quantity ord else 0),
              total_non_aon_volume := total_non_aon_volume (get_level bid li s)
                 + (if is_aon ord then 0 else quantity ord + hidden_quantity ord)\<rparr>
      else get_level b i s)"
  by (simp add: add_to_level_volume_def Let_def)

lemma remove_from_level_volume_effect [simp]:
  "get_level b i (remove_from_level_volume bid li ord s) =
     (if b = bid \<and> i = li
      then (get_level bid li s)
             \<lparr>total_volume := total_volume (get_level bid li s) - (quantity ord + hidden_quantity ord),
              total_visible_volume := total_visible_volume (get_level bid li s) - quantity ord,
              total_aon_volume := total_aon_volume (get_level bid li s)
                 - (if is_aon ord then quantity ord + hidden_quantity ord else 0),
              total_non_aon_volume := total_non_aon_volume (get_level bid li s)
                 - (if is_aon ord then 0 else quantity ord + hidden_quantity ord)\<rparr>
      else get_level b i s)"
  by (simp add: remove_from_level_volume_def Let_def)

lemma adjust_level_volume_effect [simp]:
  "get_level b i (adjust_level_volume bid li vd hdl aon s) =
     (if b = bid \<and> i = li
      then (get_level bid li s)
             \<lparr>total_volume := total_volume (get_level bid li s) + (vd + hdl),
              total_visible_volume := total_visible_volume (get_level bid li s) + vd,
              total_aon_volume := total_aon_volume (get_level bid li s)
                 + (if aon then vd + hdl else 0),
              total_non_aon_volume := total_non_aon_volume (get_level bid li s)
                 + (if aon then 0 else vd + hdl)\<rparr>
      else get_level b i s)"
  by (simp add: adjust_level_volume_def Let_def)

lemma list_push_back_level [simp]:
  "get_level b i (list_push_back bid li idx s) =
     (if b = bid \<and> i = li
      then (get_level bid li s)
             \<lparr>head := (if tail (get_level bid li s) \<noteq> NULL_INDEX then head (get_level bid li s)
                        else idx),
              tail := idx, count := count (get_level bid li s) + 1\<rparr>
      else get_level b i s)"
  by (simp add: list_push_back_def Let_def)

lemma list_push_back_pool [simp]:
  "pool_size (order_pool (list_push_back bid li idx s)) = pool_size (order_pool s)"
  "free_indices (order_pool (list_push_back bid li idx s)) = free_indices (order_pool s)"
  by (simp_all add: list_push_back_def Let_def)

lemma list_push_back_order:
  "order_at (list_push_back bid li idx s) j =
     (let t = tail (get_level bid li s)
      in if j = t \<and> t \<noteq> NULL_INDEX
         then (if j = idx then (order_at s j)\<lparr>o_next := idx, o_prev := t\<rparr>
               else (order_at s j)\<lparr>o_next := idx\<rparr>)
         else if j = idx then (order_at s j)\<lparr>o_next := NULL_INDEX, o_prev := t\<rparr>
         else order_at s j)"
  by (simp add: list_push_back_def Let_def)

lemma list_remove_level [simp]:
  "get_level b i (list_remove bid li idx s) =
     (if b = bid \<and> i = li
      then (get_level bid li s)
             \<lparr>head := (if o_prev (order_at s idx) \<noteq> NULL_INDEX then head (get_level bid li s)
                        else o_next (order_at s idx)),
              tail := (if o_next (order_at s idx) \<noteq> NULL_INDEX then tail (get_level bid li s)
                        else o_prev (order_at s idx)),
              count := count (get_level bid li s) - 1\<rparr>
      else get_level b i s)"
  by (simp add: list_remove_def Let_def)

lemma list_remove_pool [simp]:
  "pool_size (order_pool (list_remove bid li idx s)) = pool_size (order_pool s)"
  "free_indices (order_pool (list_remove bid li idx s)) = free_indices (order_pool s)"
  by (simp_all add: list_remove_def Let_def)

text \<open>The fields of an order that the list operations never write.\<close>

lemma list_push_back_payload [simp]:
  "order_id (order_at (list_push_back bid li idx s) j) = order_id (order_at s j)"
  "price (order_at (list_push_back bid li idx s) j) = price (order_at s j)"
  "quantity (order_at (list_push_back bid li idx s) j) = quantity (order_at s j)"
  "hidden_quantity (order_at (list_push_back bid li idx s) j) = hidden_quantity (order_at s j)"
  "peak_size (order_at (list_push_back bid li idx s) j) = peak_size (order_at s j)"
  "user_id_low (order_at (list_push_back bid li idx s) j) = user_id_low (order_at s j)"
  "flags (order_at (list_push_back bid li idx s) j) = flags (order_at s j)"
  by (simp_all add: list_push_back_def Let_def)

lemma list_remove_payload [simp]:
  "order_id (order_at (list_remove bid li idx s) j) = order_id (order_at s j)"
  "price (order_at (list_remove bid li idx s) j) = price (order_at s j)"
  "quantity (order_at (list_remove bid li idx s) j) = quantity (order_at s j)"
  "hidden_quantity (order_at (list_remove bid li idx s) j) = hidden_quantity (order_at s j)"
  "peak_size (order_at (list_remove bid li idx s) j) = peak_size (order_at s j)"
  "user_id_low (order_at (list_remove bid li idx s) j) = user_id_low (order_at s j)"
  "flags (order_at (list_remove bid li idx s) j) = flags (order_at s j)"
  by (simp_all add: list_remove_def Let_def)

lemma is_aon_list_ops [simp]:
  "is_aon (order_at (list_push_back bid li idx s) j) = is_aon (order_at s j)"
  "is_aon (order_at (list_remove bid li idx s) j) = is_aon (order_at s j)"
  by (simp_all add: is_aon_def)

lemma order_at_field_update [simp]:
  "order_at (s\<lparr>bid_levels := x0\<rparr>) j = order_at s j"
  "order_at (s\<lparr>ask_levels := x1\<rparr>) j = order_at s j"
  "order_at (s\<lparr>bid_bitmap := x2\<rparr>) j = order_at s j"
  "order_at (s\<lparr>ask_bitmap := x3\<rparr>) j = order_at s j"
  "order_at (s\<lparr>best_bid := x4\<rparr>) j = order_at s j"
  "order_at (s\<lparr>best_ask := x5\<rparr>) j = order_at s j"
  "order_at (s\<lparr>best_bid_word := x6\<rparr>) j = order_at s j"
  "order_at (s\<lparr>best_ask_word := x7\<rparr>) j = order_at s j"
  "order_at (s\<lparr>bid_level_count := x8\<rparr>) j = order_at s j"
  "order_at (s\<lparr>ask_level_count := x9\<rparr>) j = order_at s j"
  "order_at (s\<lparr>order_index := x10\<rparr>) j = order_at s j"
  "order_at (s\<lparr>order_index_size := x11\<rparr>) j = order_at s j"
  "order_at (s\<lparr>active_order_count := x12\<rparr>) j = order_at s j"
  "order_at (s\<lparr>max_order_id := x13\<rparr>) j = order_at s j"
  "order_at (s\<lparr>use_ring_buffer := x14\<rparr>) j = order_at s j"
  "order_at (s\<lparr>emit_accepts := x15\<rparr>) j = order_at s j"
  "order_at (s\<lparr>emit_cancels := x16\<rparr>) j = order_at s j"
  "order_at (s\<lparr>batch_buffer := x17\<rparr>) j = order_at s j"
  "order_at (s\<lparr>ring := x18\<rparr>) j = order_at s j"
  "order_at (s\<lparr>current_timestamp := x19\<rparr>) j = order_at s j"
  "order_at (s\<lparr>trades_executed := x20\<rparr>) j = order_at s j"
  "order_at (s\<lparr>messages_dropped := x21\<rparr>) j = order_at s j"
  "order_at (s\<lparr>cross_reports := x22\<rparr>) j = order_at s j"
  by (simp_all add: order_at_def)

lemma get_level_field_update [simp]:
  "get_level b i (s\<lparr>bid_bitmap := y0\<rparr>) = get_level b i s"
  "get_level b i (s\<lparr>ask_bitmap := y1\<rparr>) = get_level b i s"
  "get_level b i (s\<lparr>best_bid := y2\<rparr>) = get_level b i s"
  "get_level b i (s\<lparr>best_ask := y3\<rparr>) = get_level b i s"
  "get_level b i (s\<lparr>best_bid_word := y4\<rparr>) = get_level b i s"
  "get_level b i (s\<lparr>best_ask_word := y5\<rparr>) = get_level b i s"
  "get_level b i (s\<lparr>bid_level_count := y6\<rparr>) = get_level b i s"
  "get_level b i (s\<lparr>ask_level_count := y7\<rparr>) = get_level b i s"
  "get_level b i (s\<lparr>order_pool := y8\<rparr>) = get_level b i s"
  "get_level b i (s\<lparr>order_index := y9\<rparr>) = get_level b i s"
  "get_level b i (s\<lparr>order_index_size := y10\<rparr>) = get_level b i s"
  "get_level b i (s\<lparr>active_order_count := y11\<rparr>) = get_level b i s"
  "get_level b i (s\<lparr>max_order_id := y12\<rparr>) = get_level b i s"
  "get_level b i (s\<lparr>use_ring_buffer := y13\<rparr>) = get_level b i s"
  "get_level b i (s\<lparr>emit_accepts := y14\<rparr>) = get_level b i s"
  "get_level b i (s\<lparr>emit_cancels := y15\<rparr>) = get_level b i s"
  "get_level b i (s\<lparr>batch_buffer := y16\<rparr>) = get_level b i s"
  "get_level b i (s\<lparr>ring := y17\<rparr>) = get_level b i s"
  "get_level b i (s\<lparr>current_timestamp := y18\<rparr>) = get_level b i s"
  "get_level b i (s\<lparr>trades_executed := y19\<rparr>) = get_level b i s"
  "get_level b i (s\<lparr>messages_dropped := y20\<rparr>) = get_level b i s"
  "get_level b i (s\<lparr>cross_reports := y21\<rparr>) = get_level b i s"
  by (simp_all add: get_level_def)

lemma order_at_pool_update [simp]:
  "order_at (s\<lparr>order_pool := (order_pool s)\<lparr>free_indices := fl\<rparr>\<rparr>) j = order_at s j"
  "order_at (s\<lparr>order_pool := pool_free idx (order_pool s)\<rparr>) j =
     (if j = idx then Order_zero else order_at s j)"
  by (simp_all add: order_at_def pool_free_def)

lemma cancel_order_internal_frees:
  assumes "unat oid < order_index_size s" "loc_is_active (order_index s (unat oid))"
    and "price_to_index (loc_price (order_index s (unat oid))) < MAX_PRICE_LEVELS"
  shows "free_indices (order_pool (cancel_order_internal oid s)) =
           free_indices (order_pool s) @ [pool_idx (order_index s (unat oid))]"
    and "order_index_size (cancel_order_internal oid s) = order_index_size s"
  using assms by (simp_all add: cancel_order_internal_def Let_def pool_free_def)

lemma index_order_known:
  assumes "unat oid < order_index_size s"
  shows "index_order oid buy p idx s =
           Inr ((ensure_capacity oid s)\<lparr>order_index := (order_index (ensure_capacity oid s))(unat oid :=
                  \<lparr>loc_price = p, pool_idx = idx, loc_flags = set_active True (set_buy buy 0)\<rparr>),
                active_order_count := active_order_count (ensure_capacity oid s) + 1\<rparr>)"
  using assms by (simp add: index_order_def Let_def ensure_capacity_def)

lemma add_order_internal_rests:
  assumes "price_to_index p < MAX_PRICE_LEVELS"
    and "free_indices (order_pool s) \<noteq> []"
    and "unat oid < order_index_size s"
  shows "\<exists>s'. add_order_internal oid buy p qty uid s = Inr s'
           \<and> order_index s' (unat oid) =
               \<lparr>loc_price = p, pool_idx = last (free_indices (order_pool s)),
                loc_flags = set_active True (set_buy buy 0)\<rparr>
           \<and> order_id (order_at s' (last (free_indices (order_pool s)))) = oid
           \<and> price (order_at s' (last (free_indices (order_pool s)))) = p
           \<and> quantity (order_at s' (last (free_indices (order_pool s)))) = qty
           \<and> hidden_quantity (order_at s' (last (free_indices (order_pool s)))) = 0
           \<and> peak_size (order_at s' (last (free_indices (order_pool s)))) = 0
           \<and> user_id_low (order_at s' (last (free_indices (order_pool s)))) = uid
           \<and> flags (order_at s' (last (free_indices (order_pool s)))) = set_aon False (set_buy buy 0)"
  using assms
  by (simp add: add_order_internal_def allocate_def Let_def index_order_known)

lemma book_ice_eq:
  "book_ice = book0
     \<lparr>bid_levels := (\<lambda>_. level_reset)(100 :=
        \<lparr>head = 0, tail = 0, count = 1, total_volume = 50, total_visible_volume = 10,
         total_aon_volume = 0, total_non_aon_volume = 50\<rparr>),
      bid_bitmap := (\<lambda>_. 0)(1 := 68719476736),
      best_bid := 100, best_bid_word := 1, bid_level_count := 1,
      order_pool := \<lparr>pool = (\<lambda>_. Order_zero)(0 :=
          \<lparr>order_id = 1, price = 100, quantity = 10, hidden_quantity = 40, peak_size = 10,
           o_next = NULL_INDEX, o_prev = NULL_INDEX, user_id_low = 7, flags = 1\<rparr>),
        pool_size = 4, free_indices = [3, 2, 1]\<rparr>,
      order_index := (\<lambda>_. OrderLocation_zero)(1 := \<lparr>loc_price = 100, pool_idx = 0, loc_flags = 3\<rparr>),
      active_order_count := 1, max_order_id := 1,
      batch_buffer := [OrderAccepted 0 1 True 100 10]\<rparr>"
  unfolding book_ice_def book0_eq
  by (simp add: eval_simps cong: Let_weak prod.case_cong_weak)

text \<open>
  C10: when \<^verbatim>\<open>modify_order_internal\<close> takes the cancel-then-add path on an active order
  and the new price is in range, the order that rests under the id afterwards is the one
  written by \<^verbatim>\<open>add_order_internal\<close>: quantity \<open>new_quantity\<close>, no hidden
  reserve, no peak, not AON, user id 0, on the side of the old order.
\<close>

theorem C10_modify_readd_is_plain:
  assumes "unat oid < order_index_size s"
    and "loc_is_active (order_index s (unat oid))"
    and "price_to_index (loc_price (order_index s (unat oid))) < MAX_PRICE_LEVELS"
    and "new_price \<noteq> loc_price (order_index s (unat oid))
         \<or> quantity (order_at s (pool_idx (order_index s (unat oid)))) <s new_quantity"
    and "price_to_index new_price < MAX_PRICE_LEVELS"
  shows "\<exists>s'. modify_order_internal oid new_price new_quantity s = Inr s'
           \<and> loc_is_active (order_index s' (unat oid))
           \<and> loc_price (order_index s' (unat oid)) = new_price
           \<and> order_id (order_at s' (pool_idx (order_index s' (unat oid)))) = oid
           \<and> price (order_at s' (pool_idx (order_index s' (unat oid)))) = new_price
           \<and> quantity (order_at s' (pool_idx (order_index s' (unat oid)))) = new_quantity
           \<and> hidden_quantity (order_at s' (pool_idx (order_index s' (unat oid)))) = 0
           \<and> peak_size (order_at s' (pool_idx (order_index s' (unat oid)))) = 0
           \<and> \<not> is_iceberg (order_at s' (pool_idx (order_index s' (unat oid))))
           \<and> \<not> is_aon (order_at s' (pool_idx (order_index s' (unat oid))))
           \<and> user_id_low (order_at s' (pool_idx (order_index s' (unat oid)))) = 0
           \<and> is_buy (order_at s' (pool_idx (order_index s' (unat oid))))
               = loc_is_buy (order_index s (unat oid))"
proof -
  let ?loc = "order_index s (unat oid)"
  let ?sc = "cancel_order_internal oid s"
  have path: "\<not> (new_price = loc_price ?loc \<and> new_quantity \<le>s quantity (order_at s (pool_idx ?loc)))"
    using assms(4) by (auto simp: word_sle_eq word_sless_alt)
  have modify: "modify_order_internal oid new_price new_quantity s =
                  add_order_internal oid (loc_is_buy ?loc) new_price new_quantity 0 ?sc"
    using assms(1-3) path by (auto simp add: modify_order_internal_def Let_def)
  have free: "free_indices (order_pool ?sc) \<noteq> []" and size: "unat oid < order_index_size ?sc"
    using cancel_order_internal_frees [OF assms(1-3)] assms(1) by simp_all
  from add_order_internal_rests [OF assms(5) free size, of "loc_is_buy ?loc" new_quantity 0]
  obtain s' where s': "add_order_internal oid (loc_is_buy ?loc) new_price new_quantity 0 ?sc = Inr s'"
    and loc: "order_index s' (unat oid) =
               \<lparr>loc_price = new_price, pool_idx = last (free_indices (order_pool ?sc)),
                loc_flags = set_active True (set_buy (loc_is_buy ?loc) 0)\<rparr>"
    and ord: "order_id (order_at s' (last (free_indices (order_pool ?sc)))) = oid"
      "price (order_at s' (last (free_indices (order_pool ?sc)))) = new_price"
      "quantity (order_at s' (last (free_indices (order_pool ?sc)))) = new_quantity"
      "hidden_quantity (order_at s' (last (free_indices (order_pool ?sc)))) = 0"
      "peak_size (order_at s' (last (free_indices (order_pool ?sc)))) = 0"
      "user_id_low (order_at s' (last (free_indices (order_pool ?sc)))) = 0"
      "flags (order_at s' (last (free_indices (order_pool ?sc)))) = set_aon False (set_buy (loc_is_buy ?loc) 0)"
    by blast
  show ?thesis
    using modify s' ord by (simp add: loc loc_is_active_def is_iceberg_def is_aon_def is_buy_def)
qed

theorem C10_modify_readd_is_plain_witness:
  "unat (1 :: uint64) < order_index_size book_ice
   \<and> loc_is_active (order_index book_ice (unat (1 :: uint64)))
   \<and> is_iceberg (order_at book_ice (pool_idx (order_index book_ice (unat (1 :: uint64)))))
   \<and> hidden_quantity (order_at book_ice (pool_idx (order_index book_ice (unat (1 :: uint64))))) = 40
   \<and> user_id_low (order_at book_ice (pool_idx (order_index book_ice (unat (1 :: uint64))))) = 7
   \<and> (\<exists>s'. modify_order_internal 1 101 20 book_ice = Inr s'
          \<and> quantity (order_at s' (pool_idx (order_index s' (unat (1 :: uint64))))) = 20
          \<and> hidden_quantity (order_at s' (pool_idx (order_index s' (unat (1 :: uint64))))) = 0
          \<and> peak_size (order_at s' (pool_idx (order_index s' (unat (1 :: uint64))))) = 0
          \<and> \<not> is_aon (order_at s' (pool_idx (order_index s' (unat (1 :: uint64)))))
          \<and> user_id_low (order_at s' (pool_idx (order_index s' (unat (1 :: uint64))))) = 0)"
proof -
  have pre: "unat (1 :: uint64) < order_index_size book_ice"
    "loc_is_active (order_index book_ice (unat (1 :: uint64)))"
    "price_to_index (loc_price (order_index book_ice (unat (1 :: uint64)))) < MAX_PRICE_LEVELS"
    "101 \<noteq> loc_price (order_index book_ice (unat (1 :: uint64)))
     \<or> quantity (order_at book_ice (pool_idx (order_index book_ice (unat (1 :: uint64))))) <s 20"
    "price_to_index 101 < MAX_PRICE_LEVELS"
    by (simp_all add: book_ice_eq book0_eq loc_is_active_def price_to_index_def PRICE_OFFSET_def
        MAX_PRICE_LEVELS_def order_at_def)
  have ice: "is_iceberg (order_at book_ice (pool_idx (order_index book_ice (unat (1 :: uint64)))))"
    "hidden_quantity (order_at book_ice (pool_idx (order_index book_ice (unat (1 :: uint64))))) = 40"
    "user_id_low (order_at book_ice (pool_idx (order_index book_ice (unat (1 :: uint64))))) = 7"
    by (simp_all add: book_ice_eq book0_eq is_iceberg_def order_at_def word_sless_alt)
  from C10_modify_readd_is_plain [OF pre] pre ice show ?thesis
    by blast
qed

lemma bitmap_clear_set:
  assumes "\<not> bitmap_test bitmap idx"
  shows "bitmap_clear (bitmap_set bitmap idx) idx = bitmap"
proof -
  have "(w OR m) AND NOT m = w" if "w AND m = 0" for w m :: uint64
    using that by (metis (no_types, lifting) bit.conj_disj_distrib bit.conj_disj_distrib2
        bit.disj_cancel_left word_and_max word_and_not)
  then show ?thesis
    using assms by (simp add: bitmap_clear_def bitmap_set_def bitmap_test_def fun_upd_idem)
qed

lemma index_order_grows:
  assumes "unat oid < order_index_size s \<or> oid \<noteq> - 1"
  shows "\<exists>s'. index_order oid buy p idx s = Inr s'
           \<and> order_index s' (unat oid) =
               \<lparr>loc_price = p, pool_idx = idx, loc_flags = set_active True (set_buy buy 0)\<rparr>
           \<and> unat oid < order_index_size s'
           \<and> active_order_count s' = active_order_count s + 1
           \<and> bid_levels s' = bid_levels s \<and> ask_levels s' = ask_levels s
           \<and> bid_bitmap s' = bid_bitmap s \<and> ask_bitmap s' = ask_bitmap s
           \<and> best_bid s' = best_bid s \<and> best_ask s' = best_ask s
           \<and> best_bid_word s' = best_bid_word s \<and> best_ask_word s' = best_ask_word s
           \<and> bid_level_count s' = bid_level_count s \<and> ask_level_count s' = ask_level_count s
           \<and> order_pool s' = order_pool s"
proof -
  have "unat oid < order_index_size (ensure_capacity oid s)"
  proof (cases "unat oid < order_index_size s")
    case True
    then show ?thesis by (simp add: ensure_capacity_def Let_def)
  next
    case False
    with assms have "oid \<noteq> - 1" by simp
    then have "1 + oid \<noteq> 0"
      by (metis add.commute max_word_wrap)
    then have "unat (oid + 1) = unat oid + 1"
      using unatSuc [of oid] by (simp add: add.commute)
    with False show ?thesis by (simp add: ensure_capacity_def Let_def)
  qed
  then show ?thesis
    by (simp add: index_order_def Let_def)
qed

lemma levels_eqI:
  assumes "\<And>b i. get_level b i t = get_level b i s"
  shows "bid_levels t = bid_levels s" "ask_levels t = ask_levels s"
proof -
  have "bid_levels t i = bid_levels s i" for i
    using assms [of True i] by (simp add: get_level_def)
  then show "bid_levels t = bid_levels s" by (rule ext)
  have "ask_levels t i = ask_levels s i" for i
    using assms [of False i] by (simp add: get_level_def)
  then show "ask_levels t = ask_levels s" by (rule ext)
qed

lemma add_order_internal_unfold:
  assumes inrange: "price_to_index p < MAX_PRICE_LEVELS"
    and alloc: "allocate (order_pool s) = Inr (idx, pl)"
  shows "add_order_internal oid buy p qty uid s =
     (let order = \<lparr>order_id = oid, price = p, quantity = qty,
              hidden_quantity = 0, peak_size = 0, o_next = NULL_INDEX, o_prev = NULL_INDEX,
              user_id_low = uid, flags = set_aon False (set_buy buy 0)\<rparr>;
          s2 = list_push_back buy (price_to_index p) idx (set_order idx order (s\<lparr>order_pool := pl\<rparr>));
          s3 = add_to_level_volume buy (price_to_index p) (order_at s2 idx) s2;
          s4 = (if level_empty (get_level buy (price_to_index p) s) then level_opened buy p s3 else s3)
      in case index_order oid buy p idx s4 of Inl e \<Rightarrow> Inl e
         | Inr s5 \<Rightarrow> Inr (cross_check (emit_order_accepted oid buy p qty s5)))"
  using inrange alloc unfolding add_order_internal_def Let_def
  by (simp del: list_push_back_level add_to_level_volume_effect cong: if_cong)

lemma add_order_internal_state:
  assumes inrange: "price_to_index p < MAX_PRICE_LEVELS"
    and alloc: "allocate (order_pool s) = Inr (idx, pl)"
    and known: "unat oid < order_index_size s \<or> oid \<noteq> - 1"
  shows "\<exists>s1. add_order_internal oid buy p qty uid s = Inr s1
     \<and> order_index s1 (unat oid) =
           \<lparr>loc_price = p, pool_idx = idx, loc_flags = set_active True (set_buy buy 0)\<rparr>
     \<and> unat oid < order_index_size s1
     \<and> active_order_count s1 = active_order_count s + 1
     \<and> quantity (order_at s1 idx) = qty \<and> hidden_quantity (order_at s1 idx) = 0
     \<and> \<not> is_aon (order_at s1 idx)
     \<and> o_prev (order_at s1 idx) = tail (get_level buy (price_to_index p) s)
     \<and> o_next (order_at s1 idx) =
          (if tail (get_level buy (price_to_index p) s) = idx \<and> idx \<noteq> NULL_INDEX then idx
           else NULL_INDEX)
     \<and> (\<forall>b i. get_level b i s1 =
          (if b = buy \<and> i = price_to_index p
           then (get_level b i s)
                  \<lparr>head := (if tail (get_level b i s) \<noteq> NULL_INDEX then head (get_level b i s)
                             else idx),
                   tail := idx, count := count (get_level b i s) + 1,
                   total_volume := total_volume (get_level b i s) + qty,
                   total_visible_volume := total_visible_volume (get_level b i s) + qty,
                   total_non_aon_volume := total_non_aon_volume (get_level b i s) + qty\<rparr>
           else get_level b i s))
     \<and> (if level_empty (get_level buy (price_to_index p) s)
         then side_bitmap buy s1 = bitmap_set (side_bitmap buy s) (price_to_index p)
              \<and> (if buy then bid_level_count s1 = bid_level_count s + 1
                               \<and> ask_level_count s1 = ask_level_count s
                  else ask_level_count s1 = ask_level_count s + 1
                       \<and> bid_level_count s1 = bid_level_count s)
         else side_bitmap buy s1 = side_bitmap buy s
              \<and> bid_level_count s1 = bid_level_count s \<and> ask_level_count s1 = ask_level_count s)
     \<and> side_bitmap (\<not> buy) s1 = side_bitmap (\<not> buy) s"
proof -
  let ?li = "price_to_index p"
  define order where "order = \<lparr>order_id = oid, price = p, quantity = qty,
     hidden_quantity = 0, peak_size = 0, o_next = NULL_INDEX, o_prev = NULL_INDEX,
     user_id_low = uid, flags = set_aon False (set_buy buy 0)\<rparr>"
  define s2 where "s2 = list_push_back buy ?li idx (set_order idx order (s\<lparr>order_pool := pl\<rparr>))"
  define s3 where "s3 = add_to_level_volume buy ?li (order_at s2 idx) s2"
  define s4 where "s4 = (if level_empty (get_level buy ?li s) then level_opened buy p s3 else s3)"
  have "unat oid < order_index_size s4 \<or> oid \<noteq> - 1"
    using known by (simp add: s4_def s3_def s2_def)
  from index_order_grows [OF this, of buy p idx]
  obtain s5 where s5: "index_order oid buy p idx s4 = Inr s5"
    and s5_loc: "order_index s5 (unat oid) =
       \<lparr>loc_price = p, pool_idx = idx, loc_flags = set_active True (set_buy buy 0)\<rparr>"
      "unat oid < order_index_size s5" "active_order_count s5 = active_order_count s4 + 1"
    and s5_same: "bid_levels s5 = bid_levels s4" "ask_levels s5 = ask_levels s4"
      "bid_bitmap s5 = bid_bitmap s4" "ask_bitmap s5 = ask_bitmap s4"
      "bid_level_count s5 = bid_level_count s4" "ask_level_count s5 = ask_level_count s4"
      "order_pool s5 = order_pool s4"
    by blast
  define s1 where "s1 = cross_check (emit_order_accepted oid buy p qty s5)"
  have "add_order_internal oid buy p qty uid s =
      (case index_order oid buy p idx s4 of Inl e \<Rightarrow> Inl e
       | Inr s5 \<Rightarrow> Inr (cross_check (emit_order_accepted oid buy p qty s5)))"
    unfolding s4_def s3_def s2_def order_def add_order_internal_unfold [OF inrange alloc] Let_def
    by (rule refl)
  with s5 have res: "add_order_internal oid buy p qty uid s = Inr s1"
    by (simp add: s1_def)
  have lv5: "get_level b i s1 = get_level b i s4" for b i
    by (simp add: s1_def get_level_def s5_same)
  have oa5: "order_at s1 j = order_at s2 j" for j
    by (simp add: s1_def order_at_def s5_same) (simp add: s4_def s3_def flip: order_at_def)
  have ord2: "order_at s2 idx =
      order\<lparr>o_prev := tail (get_level buy ?li s),
            o_next := (if tail (get_level buy ?li s) = idx \<and> idx \<noteq> NULL_INDEX then idx
                       else NULL_INDEX)\<rparr>"
    by (simp add: s2_def list_push_back_order Let_def order_def)
  have lv4: "get_level b i s4 =
          (if b = buy \<and> i = ?li
           then (get_level b i s)
                  \<lparr>head := (if tail (get_level b i s) \<noteq> NULL_INDEX then head (get_level b i s)
                             else idx),
                   tail := idx, count := count (get_level b i s) + 1,
                   total_volume := total_volume (get_level b i s) + qty,
                   total_visible_volume := total_visible_volume (get_level b i s) + qty,
                   total_non_aon_volume := total_non_aon_volume (get_level b i s) + qty\<rparr>
           else get_level b i s)" for b i
    by (simp add: s4_def s3_def ord2) (auto simp add: s2_def order_def is_aon_def)
  have bits: "if level_empty (get_level buy ?li s)
         then side_bitmap buy s1 = bitmap_set (side_bitmap buy s) ?li
              \<and> (if buy then bid_level_count s1 = bid_level_count s + 1
                               \<and> ask_level_count s1 = ask_level_count s
                  else ask_level_count s1 = ask_level_count s + 1
                       \<and> bid_level_count s1 = bid_level_count s)
         else side_bitmap buy s1 = side_bitmap buy s
              \<and> bid_level_count s1 = bid_level_count s \<and> ask_level_count s1 = ask_level_count s"
    by (simp add: s1_def side_bitmap_def s5_same)
       (simp add: s4_def s3_def s2_def level_opened_def update_best_bid_after_add_def
         update_best_ask_after_add_def Let_def)
  have other: "side_bitmap (\<not> buy) s1 = side_bitmap (\<not> buy) s"
    by (simp add: s1_def side_bitmap_def s5_same)
       (simp add: s4_def s3_def s2_def level_opened_def update_best_bid_after_add_def
         update_best_ask_after_add_def Let_def)
  have cnt: "active_order_count s1 = active_order_count s + 1"
    by (simp add: s1_def s5_loc) (simp add: s4_def s3_def s2_def)
  have loc: "order_index s1 (unat oid) =
           \<lparr>loc_price = p, pool_idx = idx, loc_flags = set_active True (set_buy buy 0)\<rparr>"
    "unat oid < order_index_size s1"
    by (simp_all add: s1_def s5_loc)
  show ?thesis
    apply (rule exI [of _ s1])
    apply (intro conjI)
    apply (rule res)
    apply (rule loc)
    apply (rule loc)
    apply (rule cnt)
    apply (simp add: oa5 ord2 order_def)
    apply (simp add: oa5 ord2 order_def)
    apply (simp add: oa5 ord2 order_def is_aon_def)
    apply (simp add: oa5 ord2 order_def)
    apply (simp add: oa5 ord2 order_def)
    apply (simp only: lv5 lv4) apply blast
    apply (rule bits)
    apply (rule other)
    done
qed

lemma update_best_bitmaps [simp]:
  "bid_bitmap (update_best_bid_after_add p s) = bitmap_set (bid_bitmap s) (price_to_index p)"
  "ask_bitmap (update_best_ask_after_add p s) = bitmap_set (ask_bitmap s) (price_to_index p)"
  "bid_bitmap (update_best_bid_after_remove p s) =
     (if level_empty (bid_levels s (price_to_index p))
      then bitmap_clear (bid_bitmap s) (price_to_index p) else bid_bitmap s)"
  "ask_bitmap (update_best_ask_after_remove p s) =
     (if level_empty (ask_levels s (price_to_index p))
      then bitmap_clear (ask_bitmap s) (price_to_index p) else ask_bitmap s)"
  by (simp_all add: update_best_bid_after_add_def update_best_ask_after_add_def
      update_best_bid_after_remove_def update_best_ask_after_remove_def Let_def)

lemma allocate_cases:
  assumes "free_indices (order_pool s) \<noteq> [] \<or> free_indices (grow (order_pool s)) \<noteq> []"
  obtains idx pl where "allocate (order_pool s) = Inr (idx, pl)"
proof (cases "free_indices (order_pool s) = []")
  case True
  with assms that show ?thesis by (simp add: allocate_def Let_def)
next
  case False
  with that show ?thesis by (simp add: allocate_def Let_def)
qed

text \<open>
  C9: take a book whose level at the price of the add is well formed (it is empty or has a
  tail, and the bitmap bit of an empty level is clear), a pool that has or can grow a free
  slot, and an order id the index can hold. A plain add that is in range and not aggressive
  returns a book, and cancelling the same id in that book gives back all price levels of
  both sides (FIFO ends, counts and the four volume sums), both bitmaps, both counts of
  non-empty levels and the count of active orders.
\<close>

theorem C9_add_then_cancel_restores:
  assumes inrange: "price_to_index p < MAX_PRICE_LEVELS"
    and nonaggr: "\<not> is_aggressive buy p s"
    and slot: "free_indices (order_pool s) \<noteq> [] \<or> free_indices (grow (order_pool s)) \<noteq> []"
    and known: "unat oid < order_index_size s \<or> oid \<noteq> - 1"
    and wf: "level_empty (get_level buy (price_to_index p) s)
             \<or> tail (get_level buy (price_to_index p) s) \<noteq> NULL_INDEX"
    and bit: "level_empty (get_level buy (price_to_index p) s)
              \<longrightarrow> \<not> bitmap_test (side_bitmap buy s) (price_to_index p)"
  shows "\<exists>s1. add_order oid buy p qty uid s = Some (Inr s1)
           \<and> bid_levels (cancel_order oid s1) = bid_levels s
           \<and> ask_levels (cancel_order oid s1) = ask_levels s
           \<and> bid_bitmap (cancel_order oid s1) = bid_bitmap s
           \<and> ask_bitmap (cancel_order oid s1) = ask_bitmap s
           \<and> bid_level_count (cancel_order oid s1) = bid_level_count s
           \<and> ask_level_count (cancel_order oid s1) = ask_level_count s
           \<and> active_order_count (cancel_order oid s1) = active_order_count s"
proof -
  let ?li = "price_to_index p"
  let ?L = "get_level buy ?li s"
  from slot obtain idx pl where alloc: "allocate (order_pool s) = Inr (idx, pl)"
    by (rule allocate_cases)
  from add_order_internal_state [OF inrange alloc known, of buy qty uid]
  obtain s1 where res: "add_order_internal oid buy p qty uid s = Inr s1"
    and loc: "order_index s1 (unat oid) =
           \<lparr>loc_price = p, pool_idx = idx, loc_flags = set_active True (set_buy buy 0)\<rparr>"
      "unat oid < order_index_size s1"
    and cnt: "active_order_count s1 = active_order_count s + 1"
    and ord: "quantity (order_at s1 idx) = qty" "hidden_quantity (order_at s1 idx) = 0"
      "\<not> is_aon (order_at s1 idx)" "o_prev (order_at s1 idx) = tail ?L"
      "o_next (order_at s1 idx) = (if tail ?L = idx \<and> idx \<noteq> NULL_INDEX then idx else NULL_INDEX)"
    and lv: "\<And>b i. get_level b i s1 =
          (if b = buy \<and> i = ?li
           then (get_level b i s)
                  \<lparr>head := (if tail (get_level b i s) \<noteq> NULL_INDEX then head (get_level b i s)
                             else idx),
                   tail := idx, count := count (get_level b i s) + 1,
                   total_volume := total_volume (get_level b i s) + qty,
                   total_visible_volume := total_visible_volume (get_level b i s) + qty,
                   total_non_aon_volume := total_non_aon_volume (get_level b i s) + qty\<rparr>
           else get_level b i s)"
    and bits: "if level_empty ?L
         then side_bitmap buy s1 = bitmap_set (side_bitmap buy s) ?li
              \<and> (if buy then bid_level_count s1 = bid_level_count s + 1
                               \<and> ask_level_count s1 = ask_level_count s
                  else ask_level_count s1 = ask_level_count s + 1
                       \<and> bid_level_count s1 = bid_level_count s)
         else side_bitmap buy s1 = side_bitmap buy s
              \<and> bid_level_count s1 = bid_level_count s \<and> ask_level_count s1 = ask_level_count s"
    and other: "side_bitmap (\<not> buy) s1 = side_bitmap (\<not> buy) s"
    by blast
  define sA where "sA = remove_from_level_volume buy ?li (order_at s1 idx) s1"
  define sB where "sB = list_remove buy ?li idx sA"
  define sC where "sC = sB\<lparr>order_pool := pool_free idx (order_pool sB)\<rparr>"
  define sD where "sD = (if level_empty (get_level buy ?li sC) then level_closed buy p sC else sC)"
  define sE where "sE = sD\<lparr>order_index := (order_index sD)(unat oid :=
      (order_index s1 (unat oid))\<lparr>loc_flags := set_active False (loc_flags (order_index s1 (unat oid)))\<rparr>),
      active_order_count := active_order_count sD - 1\<rparr>"
  have cancel: "cancel_order oid s1 =
      emit_order_cancelled oid (quantity (order_at s1 idx) + hidden_quantity (order_at s1 idx)) sE"
    unfolding sE_def sD_def sC_def sB_def sA_def cancel_order_def cancel_order_internal_def Let_def
    using loc inrange by (simp add: loc_is_active_def loc_is_buy_def)
  have lvB: "get_level b i sB = get_level b i s" for b i
    using wf by (auto simp add: sB_def sA_def ord lv level_empty_def)
  have lvC: "get_level b i sC = get_level b i s" for b i
    by (simp add: sC_def lvB)
  have lv2: "get_level b i (cancel_order oid s1) = get_level b i s" for b i
    by (simp add: cancel sE_def sD_def lvC)
  have closed: "level_empty (get_level buy ?li sC) = level_empty ?L"
    by (simp add: lvC)
  have sC_bits: "bid_bitmap sC = bid_bitmap s1" "ask_bitmap sC = ask_bitmap s1"
    "bid_level_count sC = bid_level_count s1" "ask_level_count sC = ask_level_count s1"
    by (simp_all add: sC_def sB_def sA_def)
  have same_bits: "side_bitmap buy (cancel_order oid s1) = side_bitmap buy s
      \<and> side_bitmap (\<not> buy) (cancel_order oid s1) = side_bitmap (\<not> buy) s
      \<and> bid_level_count (cancel_order oid s1) = bid_level_count s
      \<and> ask_level_count (cancel_order oid s1) = ask_level_count s"
  proof (cases "level_empty ?L")
    case True
    with bit have clear: "\<not> bitmap_test (side_bitmap buy s) ?li"
      by simp
    have emptyC: "level_empty (bid_levels sC ?li)" if buy
      using closed True that by (simp add: get_level_def)
    have emptyC': "level_empty (ask_levels sC ?li)" if "\<not> buy"
      using closed True that by (simp add: get_level_def)
    show ?thesis
      using True bits other closed bitmap_clear_set [OF clear] emptyC emptyC'
      by (cases buy)
         (simp_all add: cancel sE_def sD_def side_bitmap_def level_closed_def sC_bits)
  next
    case False
    with closed have "sD = sC"
      by (simp add: sD_def)
    then show ?thesis
      using False bits other
      by (cases buy) (simp_all add: cancel sE_def side_bitmap_def sC_bits)
  qed
  have active: "active_order_count (cancel_order oid s1) = active_order_count s"
    by (simp add: cancel sE_def sD_def) (simp add: sC_def sB_def sA_def cnt)
  have add: "add_order oid buy p qty uid s = Some (Inr s1)"
    using nonaggr res by (simp add: add_order_def)
  have bitmaps: "bid_bitmap (cancel_order oid s1) = bid_bitmap s"
    "ask_bitmap (cancel_order oid s1) = ask_bitmap s"
    using same_bits by (cases buy; simp add: side_bitmap_def)+
  show ?thesis
    using add levels_eqI [of "cancel_order oid s1" s, OF lv2] bitmaps same_bits active
    by blast
qed

lemma book_bid_eq:
  "book_bid = book0
     \<lparr>bid_levels := (\<lambda>_. level_reset)(100 :=
        \<lparr>head = 0, tail = 0, count = 1, total_volume = 10, total_visible_volume = 10,
         total_aon_volume = 0, total_non_aon_volume = 10\<rparr>),
      bid_bitmap := (\<lambda>_. 0)(1 := 68719476736),
      best_bid := 100, best_bid_word := 1, bid_level_count := 1,
      order_pool := \<lparr>pool = (\<lambda>_. Order_zero)(0 :=
          \<lparr>order_id = 1, price = 100, quantity = 10, hidden_quantity = 0, peak_size = 0,
           o_next = NULL_INDEX, o_prev = NULL_INDEX, user_id_low = 7, flags = 1\<rparr>),
        pool_size = 4, free_indices = [3, 2, 1]\<rparr>,
      order_index := (\<lambda>_. OrderLocation_zero)(1 := \<lparr>loc_price = 100, pool_idx = 0, loc_flags = 3\<rparr>),
      active_order_count := 1, max_order_id := 1,
      batch_buffer := [OrderAccepted 0 1 True 100 10]\<rparr>"
  unfolding book_bid_def book0_eq
  by (simp add: eval_simps cong: Let_weak prod.case_cong_weak)

theorem C9_add_then_cancel_restores_witness:
  "price_to_index 100 < MAX_PRICE_LEVELS
   \<and> \<not> is_aggressive True 100 book_bid
   \<and> free_indices (order_pool book_bid) \<noteq> []
   \<and> unat (2 :: uint64) < order_index_size book_bid
   \<and> tail (get_level True (price_to_index 100) book_bid) \<noteq> NULL_INDEX
   \<and> \<not> level_empty (get_level True (price_to_index 100) book_bid)
   \<and> (\<exists>s1. add_order 2 True 100 3 0 book_bid = Some (Inr s1)
          \<and> total_volume (bid_levels s1 100) = 13
          \<and> bid_levels (cancel_order 2 s1) = bid_levels book_bid
          \<and> ask_levels (cancel_order 2 s1) = ask_levels book_bid
          \<and> bid_bitmap (cancel_order 2 s1) = bid_bitmap book_bid
          \<and> ask_bitmap (cancel_order 2 s1) = ask_bitmap book_bid
          \<and> bid_level_count (cancel_order 2 s1) = bid_level_count book_bid
          \<and> ask_level_count (cancel_order 2 s1) = ask_level_count book_bid
          \<and> active_order_count (cancel_order 2 s1) = active_order_count book_bid)"
proof -
  have pre: "price_to_index 100 < MAX_PRICE_LEVELS"
    "\<not> is_aggressive True 100 book_bid"
    "free_indices (order_pool book_bid) \<noteq> [] \<or> free_indices (grow (order_pool book_bid)) \<noteq> []"
    "unat (2 :: uint64) < order_index_size book_bid \<or> (2 :: uint64) \<noteq> - 1"
    "level_empty (get_level True (price_to_index 100) book_bid)
     \<or> tail (get_level True (price_to_index 100) book_bid) \<noteq> NULL_INDEX"
    "level_empty (get_level True (price_to_index 100) book_bid)
     \<longrightarrow> \<not> bitmap_test (side_bitmap True book_bid) (price_to_index 100)"
    and more: "free_indices (order_pool book_bid) \<noteq> []"
    "unat (2 :: uint64) < order_index_size book_bid"
    "tail (get_level True (price_to_index 100) book_bid) \<noteq> NULL_INDEX"
    "\<not> level_empty (get_level True (price_to_index 100) book_bid)"
    by (simp_all add: book_bid_eq book0_eq is_aggressive_def price_to_index_def PRICE_OFFSET_def
        MAX_PRICE_LEVELS_def get_level_def level_empty_def NULL_INDEX_def INT64_MAX_def)
  have vol: "total_volume (bid_levels s1 100) = 13"
    if "add_order 2 True 100 3 0 book_bid = Some (Inr s1)" for s1
    using that unfolding book_bid_eq book0_eq
    by (simp add: eval_simps cong: Let_weak prod.case_cong_weak) auto
  from C9_add_then_cancel_restores [OF pre, of 3 0] pre(1,2) more vol show ?thesis
    by blast
qed

lemma book_two_eq:
  "book_two = book_bid
     \<lparr>ask_levels := (\<lambda>_. level_reset)(105 :=
        \<lparr>head = 1, tail = 1, count = 1, total_volume = 5, total_visible_volume = 5,
         total_aon_volume = 0, total_non_aon_volume = 5\<rparr>),
      ask_bitmap := (\<lambda>_. 0)(1 := 2199023255552),
      best_ask := 105, best_ask_word := 1, ask_level_count := 1,
      order_pool := \<lparr>pool = (\<lambda>_. Order_zero)
         (0 := \<lparr>order_id = 1, price = 100, quantity = 10, hidden_quantity = 0, peak_size = 0,
                 o_next = NULL_INDEX, o_prev = NULL_INDEX, user_id_low = 7, flags = 1\<rparr>,
          1 := \<lparr>order_id = 2, price = 105, quantity = 5, hidden_quantity = 0, peak_size = 0,
                 o_next = NULL_INDEX, o_prev = NULL_INDEX, user_id_low = 8, flags = 0\<rparr>),
        pool_size = 4, free_indices = [3, 2]\<rparr>,
      order_index := (\<lambda>_. OrderLocation_zero)
         (1 := \<lparr>loc_price = 100, pool_idx = 0, loc_flags = 3\<rparr>,
          2 := \<lparr>loc_price = 105, pool_idx = 1, loc_flags = 2\<rparr>),
      active_order_count := 2, max_order_id := 2,
      batch_buffer := [OrderAccepted 0 1 True 100 10, OrderAccepted 0 2 False 105 5]\<rparr>"
  unfolding book_two_def book_bid_eq book0_eq
  by (simp add: eval_simps cong: Let_weak prod.case_cong_weak)

lemma modify_crossing_run:
  "modify_order_internal 1 105 10 book_two = Inr book_crossed"
  "best_bid book_crossed = 105" "best_ask book_crossed = 105"
  "cross_reports book_crossed = [(105, 105)]"
  "trades_executed book_crossed = 0"
  "quantity (order_at book_crossed 1) = 5"
  "batch_buffer book_crossed =
     batch_buffer book_two @ [OrderCancelled 0 1 10, OrderAccepted 0 1 True 105 10]"
  unfolding book_crossed_def book_two_eq book_bid_eq book0_eq
  by (simp_all add: eval_simps cong: Let_weak prod.case_cong_weak)

lemma public_adds_run:
  "add_order 1 True 100 10 7 book0 = Some (Inr book_bid)"
  "add_order 2 False 105 5 8 book_bid = Some (Inr book_two)"
  unfolding book_two_eq book_bid_eq book0_eq
  by (simp_all add: eval_simps cong: Let_weak prod.case_cong_weak)

text \<open>
  C1 fails on the code. A bid of 10 rests at 100 and an ask of 5 at 105; modifying the bid
  to the price 105 cancels it and rests it again at 105 without matching, so the operation
  returns with best bid = best ask = 105, and the diagnostic of
  \<^verbatim>\<open>add_order_internal\<close> itself reports the cross.
\<close>

theorem C1_modify_returns_crossed_book:
  "add_order 1 True 100 10 7 book0 = Some (Inr book_bid)
   \<and> add_order 2 False 105 5 8 book_bid = Some (Inr book_two)
   \<and> best_bid book_two <s best_ask book_two
   \<and> modify_order_internal 1 105 10 book_two = Inr book_crossed
   \<and> best_bid book_crossed = 105 \<and> best_ask book_crossed = 105
   \<and> \<not> best_bid book_crossed <s best_ask book_crossed
   \<and> cross_reports book_crossed = [(105, 105)]"
proof -
  have "best_bid book_two <s best_ask book_two"
    by (simp add: book_two_eq book_bid_eq book0_eq)
  then show ?thesis
    by (simp add: modify_crossing_run public_adds_run)
qed

lemma readd_would_match_run:
  "is_aggressive True 105 (cancel_order_internal 1 book_two)"
  "add_order 1 True 105 10 0 (cancel_order_internal 1 book_two) = Some (Inr book_matched)"
  "trades_executed book_matched = 1"
  "best_bid book_matched = 105" "best_ask book_matched = INT64_MAX"
  "batch_buffer book_matched =
     batch_buffer book_two @ [OrderCancelled 0 1 10, Trade 0 1 2 105 5, OrderAccepted 0 1 True 105 5]"
  unfolding book_matched_def book_two_eq book_bid_eq book0_eq
  by (simp_all add: eval_simps walk_level.simps match_loop.simps cong: Let_weak prod.case_cong_weak)

text \<open>
  C2 fails on the code in its last part. In the book of C1 the modify of the bid to 105
  takes the cancel-then-add path, and at that point the new add crosses the best ask (the
  test \<^verbatim>\<open>is_aggressive\<close> of \<^verbatim>\<open>add_order\<close> holds, and \<^verbatim>\<open>add_order\<close>
  called there trades 5 at 105). \<^verbatim>\<open>modify_order_internal\<close> calls
  \<^verbatim>\<open>add_order_internal\<close> instead: the order rests at 105, no trade is made and the ask
  of 5 at 105 stays as it was.
\<close>

theorem C2_modify_readd_is_not_matched:
  "modify_order_internal 1 105 10 book_two
     = add_order_internal 1 True 105 10 0 (cancel_order_internal 1 book_two)
   \<and> is_aggressive True 105 (cancel_order_internal 1 book_two)
   \<and> modify_order_internal 1 105 10 book_two = Inr book_crossed
   \<and> trades_executed book_crossed = 0
   \<and> quantity (order_at book_crossed 1) = 5
   \<and> batch_buffer book_crossed =
       batch_buffer book_two @ [OrderCancelled 0 1 10, OrderAccepted 0 1 True 105 10]
   \<and> add_order 1 True 105 10 0 (cancel_order_internal 1 book_two) = Some (Inr book_matched)
   \<and> trades_executed book_matched = 1
   \<and> batch_buffer book_matched =
       batch_buffer book_two @ [OrderCancelled 0 1 10, Trade 0 1 2 105 5, OrderAccepted 0 1 True 105 5]"
proof -
  have "modify_order_internal 1 105 10 book_two
          = add_order_internal 1 True 105 10 0 (cancel_order_internal 1 book_two)"
    by (simp add: modify_order_internal_def Let_def book_two_eq book_bid_eq book0_eq
        loc_is_active_def loc_is_buy_def price_to_index_def PRICE_OFFSET_def MAX_PRICE_LEVELS_def)
  then show ?thesis
    by (simp add: modify_crossing_run readd_would_match_run)
qed

lemma book_aon_eq:
  "book_aon = book0
     \<lparr>ask_levels := (\<lambda>_. level_reset)(100 :=
        \<lparr>head = 0, tail = 0, count = 1, total_volume = 20, total_visible_volume = 20,
         total_aon_volume = 20, total_non_aon_volume = 0\<rparr>),
      ask_bitmap := (\<lambda>_. 0)(1 := 68719476736),
      best_ask := 100, best_ask_word := 1, ask_level_count := 1,
      order_pool := \<lparr>pool = (\<lambda>_. Order_zero)(0 :=
          \<lparr>order_id = 1, price = 100, quantity = 20, hidden_quantity = 0, peak_size = 0,
           o_next = NULL_INDEX, o_prev = NULL_INDEX, user_id_low = 0, flags = 2\<rparr>),
        pool_size = 4, free_indices = [3, 2, 1]\<rparr>,
      order_index := (\<lambda>_. OrderLocation_zero)(1 := \<lparr>loc_price = 100, pool_idx = 0, loc_flags = 2\<rparr>),
      active_order_count := 1, max_order_id := 1,
      batch_buffer := [OrderAccepted 0 1 False 100 20]\<rparr>"
  unfolding book_aon_def book0_eq
  by (simp add: eval_simps cong: Let_weak prod.case_cong_weak)

lemma aon_rests_run:
  "match_order 1 False 100 20 AON book0 = Some (Inr book_aon)"
  unfolding book_aon_eq book0_eq
  by (simp add: eval_simps cong: Let_weak prod.case_cong_weak)

text \<open>The walk of the level at 100 skips the AON order of 20 and changes nothing.\<close>

lemma walk_skips_aon:
  "walk_level 2 True 100 100 0 5 0 book_aon = Some (5, 0, book_aon)"
  unfolding book_aon_eq book0_eq
  by (simp add: eval_simps walk_level.simps cong: Let_weak prod.case_cong_weak)

lemma match_loop_spins:
  "match_loop 2 True 100 5 0 False book_aon = None"
proof -
  have away: "(oid, buy, p, remaining_qty, trade_count, ose, s)
              \<noteq> (2, True, 100, 5, 0, False, book_aon)"
    if "match_loop oid buy p remaining_qty trade_count ose s = Some y"
    for oid buy p remaining_qty trade_count ose s y
  proof (rule match_loop.raw_induct [where P = "\<lambda>oid buy p remaining_qty trade_count ose s y.
      (oid, buy, p, remaining_qty, trade_count, ose, s) \<noteq> (2, True, 100, 5, 0, False, book_aon)",
      OF _ that])
    fix loop oid buy p remaining_qty trade_count ose s y
    assume hyp: "\<And>oid buy p remaining_qty trade_count ose s y.
        loop oid buy p remaining_qty trade_count ose s = Some y \<Longrightarrow>
        (oid, buy, p, remaining_qty, trade_count, ose, s) \<noteq> (2, True, 100, 5, 0, False, book_aon)"
      and body: "(if 0 <s remaining_qty \<and> \<not> ose
      then (let best_price = opposite_best buy s
            in if buy \<and> p <s best_price then Some (remaining_qty, trade_count, s)
               else if \<not> buy \<and> best_price <s p then Some (remaining_qty, trade_count, s)
               else (let level_idx = price_to_index best_price
                     in if MAX_PRICE_LEVELS \<le> level_idx then Some (remaining_qty, trade_count, s)
                        else if level_empty (get_level (\<not> buy) level_idx s)
                        then loop oid buy p remaining_qty trade_count ose
                               (if buy then update_best_ask_after_remove best_price s
                                else update_best_bid_after_remove best_price s)
                        else Option.bind
                               (walk_level oid buy level_idx best_price
                                  (head (get_level (\<not> buy) level_idx s))
                                  remaining_qty trade_count s)
                               (\<lambda>(remaining1, trade_count1, s1).
                                  let s2 = (if level_empty (get_level (\<not> buy) level_idx s1)
                                            then level_closed (\<not> buy) best_price s1 else s1)
                                  in loop oid buy p remaining1 trade_count1
                                       (opposite_side_empty buy s2) s2)))
      else Some (remaining_qty, trade_count, s)) = Some y"
    show "(oid, buy, p, remaining_qty, trade_count, ose, s)
          \<noteq> (2, True, 100, 5, 0, False, book_aon)"
    proof
      assume "(oid, buy, p, remaining_qty, trade_count, ose, s)
              = (2, True, 100, 5, 0, False, book_aon)"
      then have at: "oid = 2" "buy" "p = 100" "remaining_qty = 5" "trade_count = 0" "\<not> ose"
        "s = book_aon"
        by simp_all
      have lv: "get_level False 100 book_aon = \<lparr>head = 0, tail = 0, count = 1, total_volume = 20,
          total_visible_volume = 20, total_aon_volume = 20, total_non_aon_volume = 0\<rparr>"
        "best_ask book_aon = 100"
        by (simp_all add: book_aon_eq book0_eq get_level_def)
      from at body have "loop 2 True 100 5 0 False book_aon = Some y"
        by (simp add: Let_def word_sless_alt word_sle_eq opposite_best_def lv walk_skips_aon level_empty_def NULL_INDEX_def
            opposite_side_empty_def INT64_MAX_def price_to_index_def PRICE_OFFSET_def
            MAX_PRICE_LEVELS_def)
      from hyp [OF this] show False
        by simp
    qed
  qed
  show ?thesis
  proof (cases "match_loop 2 True 100 5 0 False book_aon")
    case None
    then show ?thesis .
  next
    case (Some y)
    from away [OF this] show ?thesis
      by simp
  qed
qed

text \<open>
  C3 fails on the code. One sell of 20 rests at 100 as an AON order (the public
  \<^verbatim>\<open>match_order\<close> with TIF AON puts it there on an empty book). A buy of 5 at 100 then
  enters the price-time walk: the level at 100 is the best ask and holds only that AON
  order, whose total exceeds the remaining 5, so the inner loop skips it; the level is not
  empty, the best ask is unchanged, and the outer loop starts again in the same state. The
  match does not return, whether it comes from \<^verbatim>\<open>match_order\<close> or from an
  aggressive \<^verbatim>\<open>add_order\<close>.
\<close>

theorem C3_match_does_not_return:
  "match_order 1 False 100 20 AON book0 = Some (Inr book_aon)
   \<and> match_internal 2 True 100 5 IOC book_aon = None
   \<and> match_order 2 True 100 5 GTC book_aon = None
   \<and> add_order 2 True 100 5 0 book_aon = None"
proof -
  have "is_aggressive True 100 book_aon" "\<not> opposite_side_empty True book_aon"
    by (simp_all add: is_aggressive_def opposite_side_empty_def book_aon_eq book0_eq INT64_MAX_def)
  then have "match_internal 2 True 100 5 IOC book_aon = None"
    "match_order 2 True 100 5 GTC book_aon = None"
    "add_order 2 True 100 5 0 book_aon = None"
    by (simp_all add: match_internal_def match_order_def add_order_def match_loop_spins)
  with aon_rests_run show ?thesis
    by blast
qed

lemma first_last_simps [simp]:
  "first_of [] = NULL_INDEX" "first_of (a # xs) = a"
  "last_of [] = NULL_INDEX" "last_of (xs @ [a]) = a"
  by (simp_all add: first_of_def last_of_def)

lemma last_of_Cons: "last_of (a # xs) = (if xs = [] then a else last_of xs)"
  by (simp add: last_of_def)

lemma first_of_in: "xs \<noteq> [] \<Longrightarrow> first_of xs \<in> set xs"
  by (simp add: first_of_def)

lemma last_of_in: "xs \<noteq> [] \<Longrightarrow> last_of xs \<in> set xs"
  by (simp add: last_of_def)

lemma succ_in_notin: "x \<notin> set xs \<Longrightarrow> succ_in xs x = NULL_INDEX"
  by (induction xs) auto

lemma pred_in_notin: "x \<notin> set xs \<Longrightarrow> pred_in xs x = NULL_INDEX"
  by (induction xs) (auto simp: first_of_def)

lemma succ_in_range: "succ_in xs x = NULL_INDEX \<or> succ_in xs x \<in> set xs"
  by (induction xs) (auto simp: first_of_def)

lemma pred_in_range: "pred_in xs x = NULL_INDEX \<or> pred_in xs x \<in> set xs"
  by (induction xs) auto

lemma succ_in_append:
  "distinct (xs @ [i]) \<Longrightarrow> succ_in (xs @ [i]) x =
     (if xs \<noteq> [] \<and> x = last_of xs then i else succ_in xs x)"
  by (induction xs) (auto simp: first_of_def last_of_def)

lemma pred_in_append:
  "distinct (xs @ [i]) \<Longrightarrow> pred_in (xs @ [i]) x =
     (if x = i then last_of xs else pred_in xs x)"
proof (induction xs)
  case Nil
  then show ?case by simp
next
  case (Cons a xs)
  show ?case
  proof (cases "xs = []")
    case True
    then show ?thesis by (simp add: last_of_def)
  next
    case False
    then have "first_of (xs @ [i]) = hd xs" "first_of xs = hd xs" "last_of (a # xs) = last_of xs"
      by (simp_all add: first_of_def last_of_def)
    moreover have "hd xs \<noteq> i"
      using Cons.prems False by (cases xs) auto
    ultimately show ?thesis
      using Cons False by auto
  qed
qed

lemma succ_in_last:
  "distinct xs \<Longrightarrow> NULL_INDEX \<notin> set xs \<Longrightarrow> x \<in> set xs \<Longrightarrow>
     (succ_in xs x = NULL_INDEX) = (x = last_of xs)"
  by (induction xs) (auto simp: first_of_def last_of_def dest: hd_in_set)

lemma pred_in_first:
  "distinct xs \<Longrightarrow> NULL_INDEX \<notin> set xs \<Longrightarrow> x \<in> set xs \<Longrightarrow>
     (pred_in xs x = NULL_INDEX) = (x = first_of xs)"
  by (induction xs) (auto simp: first_of_def pred_in_notin dest: hd_in_set)

lemma succ_pred:
  "distinct xs \<Longrightarrow> NULL_INDEX \<notin> set xs \<Longrightarrow> x \<in> set xs \<Longrightarrow> y \<in> set xs \<Longrightarrow>
     (succ_in xs x = y) = (pred_in xs y = x)"
proof (induction xs)
  case Nil
  then show ?case by simp
next
  case (Cons a xs)
  have a: "a \<notin> set xs" "a \<noteq> NULL_INDEX" "distinct xs" "NULL_INDEX \<notin> set xs"
    using Cons.prems by auto
  have out: "pred_in xs z \<noteq> a" "succ_in xs z \<noteq> a" for z
    using a pred_in_range [of xs z] succ_in_range [of xs z] by auto
  have fst: "first_of xs \<noteq> a"
    using a by (cases xs) auto
  have pa: "pred_in xs a = NULL_INDEX"
    using a by (simp add: pred_in_notin)
  show ?case
  proof (cases "x = a")
    case xa: True
    show ?thesis
    proof (cases "y = a")
      case True
      with xa fst pa a show ?thesis by simp
    next
      case False
      with Cons.prems have "y \<in> set xs" by simp
      then have "xs \<noteq> []" by auto
      with xa out show ?thesis by auto
    qed
  next
    case xa: False
    with Cons.prems have x: "x \<in> set xs" "x \<noteq> NULL_INDEX" by auto
    show ?thesis
    proof (cases "y = a")
      case True
      with xa fst pa x out show ?thesis by simp
    next
      case False
      with Cons.prems have y: "y \<in> set xs" by simp
      have ih: "(succ_in xs x = y) = (pred_in xs y = x)"
        using Cons.IH a x y by simp
      show ?thesis
      proof (cases "y = first_of xs")
        case True
        then have "pred_in xs y = NULL_INDEX"
          using pred_in_first [of xs y] a y by simp
        with True xa x ih y show ?thesis by auto
      next
        case False
        with xa ih show ?thesis by simp
      qed
    qed
  qed
qed

lemma first_of_remove1:
  assumes "distinct xs" "NULL_INDEX \<notin> set xs" "y \<in> set xs"
  shows "first_of (remove1 y xs) =
           (if pred_in xs y \<noteq> NULL_INDEX then first_of xs else succ_in xs y)"
proof (cases xs)
  case Nil
  with assms show ?thesis by simp
next
  case (Cons a zs)
  show ?thesis
  proof (cases "y = a")
    case True
    have "first_of zs \<noteq> a"
      using assms Cons by (cases zs) auto
    moreover have "pred_in zs a = NULL_INDEX"
      using assms Cons by (simp add: pred_in_notin)
    ultimately show ?thesis
      using Cons True by simp
  next
    case False
    have "pred_in xs y \<noteq> NULL_INDEX"
      using pred_in_first [OF assms] False Cons by simp
    then show ?thesis
      using Cons False by simp
  qed
qed

lemma succ_in_remove1:
  "distinct xs \<Longrightarrow> NULL_INDEX \<notin> set xs \<Longrightarrow> y \<in> set xs \<Longrightarrow> x \<in> set xs \<Longrightarrow> x \<noteq> y \<Longrightarrow>
     succ_in (remove1 y xs) x = (if succ_in xs x = y then succ_in xs y else succ_in xs x)"
proof (induction xs)
  case Nil
  then show ?case by simp
next
  case (Cons a xs)
  have a: "a \<notin> set xs" "distinct xs" "NULL_INDEX \<notin> set xs"
    using Cons.prems by auto
  have out: "succ_in xs z \<noteq> a" for z
    using a succ_in_range [of xs z] Cons.prems by auto
  show ?case
  proof (cases "y = a")
    case True
    with Cons.prems out show ?thesis by simp
  next
    case ya: False
    with Cons.prems have y: "y \<in> set xs" by simp
    show ?thesis
    proof (cases "x = a")
      case True
      have "first_of (remove1 y xs) = (if first_of xs = y then succ_in xs y else first_of xs)"
        using first_of_remove1 [OF a(2,3) y] pred_in_first [OF a(2,3) y] by auto
      with True ya show ?thesis by simp
    next
      case False
      with Cons.prems have "x \<in> set xs" by simp
      with Cons.IH a y Cons.prems(5) False ya show ?thesis by simp
    qed
  qed
qed

lemma last_of_rev: "last_of xs = first_of (rev xs)" "first_of xs = last_of (rev xs)"
  by (simp_all add: last_of_def first_of_def hd_rev last_rev)

lemma pred_in_rev: "distinct xs \<Longrightarrow> pred_in xs x = succ_in (rev xs) x"
proof (induction xs)
  case Nil
  then show ?case by simp
next
  case (Cons a xs)
  then have "distinct (rev xs @ [a])" by simp
  from succ_in_append [OF this, of x]
  have "succ_in (rev xs @ [a]) x = (if xs \<noteq> [] \<and> x = first_of xs then a else succ_in (rev xs) x)"
    by (simp add: last_of_rev(2))
  with Cons show ?case
    by auto
qed

lemma remove1_rev: "distinct xs \<Longrightarrow> remove1 y (rev xs) = rev (remove1 y xs)"
  by (simp add: distinct_remove1_removeAll removeAll_filter_not_eq rev_filter)

lemma last_of_remove1:
  assumes "distinct xs" "NULL_INDEX \<notin> set xs" "y \<in> set xs"
  shows "last_of (remove1 y xs) =
           (if succ_in xs y \<noteq> NULL_INDEX then last_of xs else pred_in xs y)"
proof -
  have "first_of (remove1 y (rev xs)) =
          (if pred_in (rev xs) y \<noteq> NULL_INDEX then first_of (rev xs) else succ_in (rev xs) y)"
    using assms by (intro first_of_remove1) simp_all
  then show ?thesis
    using assms by (simp add: remove1_rev pred_in_rev flip: last_of_rev(1))
qed

lemma pred_in_remove1:
  assumes "distinct xs" "NULL_INDEX \<notin> set xs" "y \<in> set xs" "x \<in> set xs" "x \<noteq> y"
  shows "pred_in (remove1 y xs) x = (if pred_in xs x = y then pred_in xs y else pred_in xs x)"
proof -
  have "succ_in (remove1 y (rev xs)) x =
          (if succ_in (rev xs) x = y then succ_in (rev xs) y else succ_in (rev xs) x)"
    using assms by (intro succ_in_remove1) simp_all
  then show ?thesis
    using assms by (simp add: remove1_rev pred_in_rev)
qed

lemma list_remove_links:
  "o_next (order_at (list_remove bid li idx s) j) =
     (if j = idx then NULL_INDEX
      else if j = o_prev (order_at s idx) \<and> o_prev (order_at s idx) \<noteq> NULL_INDEX
      then o_next (order_at s idx) else o_next (order_at s j))"
  "o_prev (order_at (list_remove bid li idx s) j) =
     (if j = idx then NULL_INDEX
      else if j = o_next (order_at s idx) \<and> o_next (order_at s idx) \<noteq> NULL_INDEX
      then o_prev (order_at s idx) else o_prev (order_at s j))"
  by (simp_all add: list_remove_def Let_def)

lemma list_push_back_links:
  "o_next (order_at (list_push_back bid li idx s) j) =
     (if j = tail (get_level bid li s) \<and> tail (get_level bid li s) \<noteq> NULL_INDEX then idx
      else if j = idx then NULL_INDEX else o_next (order_at s j))"
  "o_prev (order_at (list_push_back bid li idx s) j) =
     (if j = idx then tail (get_level bid li s) else o_prev (order_at s j))"
  by (simp_all add: list_push_back_order Let_def)

lemma is_fifo_remove:
  assumes "is_fifo s bid li xs" "idx \<in> set xs"
  shows "is_fifo (list_remove bid li idx s) bid li (remove1 idx xs)"
proof -
  from assms have d: "distinct xs" "NULL_INDEX \<notin> set xs"
    and ends: "head (get_level bid li s) = first_of xs" "tail (get_level bid li s) = last_of xs"
    and links: "\<And>x. x \<in> set xs \<Longrightarrow> o_next (order_at s x) = succ_in xs x"
      "\<And>x. x \<in> set xs \<Longrightarrow> o_prev (order_at s x) = pred_in xs x"
    by (simp_all add: is_fifo_def)
  have "o_next (order_at (list_remove bid li idx s) x) = succ_in (remove1 idx xs) x
        \<and> o_prev (order_at (list_remove bid li idx s) x) = pred_in (remove1 idx xs) x"
    if "x \<in> set (remove1 idx xs)" for x
  proof -
    from that d have x: "x \<in> set xs" "x \<noteq> idx" "x \<noteq> NULL_INDEX"
      by auto
    have "(pred_in xs idx = x) = (succ_in xs x = idx)" "(succ_in xs idx = x) = (pred_in xs x = idx)"
      using succ_pred [OF d x(1) assms(2)] succ_pred [OF d assms(2) x(1)] by auto
    then show ?thesis
      using x d assms(2) links
      by (auto simp add: list_remove_links succ_in_remove1 pred_in_remove1)
  qed
  then show ?thesis
    using d assms(2) ends links
    by (simp add: is_fifo_def first_of_remove1 last_of_remove1)
qed

lemma is_fifo_push:
  assumes "is_fifo s bid li xs" "idx \<notin> set xs" "idx \<noteq> NULL_INDEX"
  shows "is_fifo (list_push_back bid li idx s) bid li (xs @ [idx])"
proof -
  from assms have d: "distinct (xs @ [idx])" "NULL_INDEX \<notin> set (xs @ [idx])"
    and ends: "head (get_level bid li s) = first_of xs" "tail (get_level bid li s) = last_of xs"
    and links: "\<And>x. x \<in> set xs \<Longrightarrow> o_next (order_at s x) = succ_in xs x"
      "\<And>x. x \<in> set xs \<Longrightarrow> o_prev (order_at s x) = pred_in xs x"
    by (simp_all add: is_fifo_def)
  have tl: "(last_of xs = NULL_INDEX) = (xs = [])"
  proof (cases "xs = []")
    case True
    then show ?thesis by simp
  next
    case False
    with last_of_in [of xs] d(2) show ?thesis by auto
  qed
  have hd: "first_of (xs @ [idx]) = (if xs = [] then idx else first_of xs)"
    by (simp add: first_of_def)
  have "o_next (order_at (list_push_back bid li idx s) x) = succ_in (xs @ [idx]) x
        \<and> o_prev (order_at (list_push_back bid li idx s) x) = pred_in (xs @ [idx]) x"
    if "x \<in> set (xs @ [idx])" for x
    using that assms(2,3) links tl last_of_in [of xs]
    by (auto simp add: list_push_back_links ends succ_in_append [OF d(1)] pred_in_append [OF d(1)]
        succ_in_notin)
  then show ?thesis
    using d ends tl hd by (simp add: is_fifo_def)
qed

lemma is_fifo_same:
  assumes "head (get_level bid li t) = head (get_level bid li s)"
    and "tail (get_level bid li t) = tail (get_level bid li s)"
    and "\<And>x. o_next (order_at t x) = o_next (order_at s x)"
    and "\<And>x. o_prev (order_at t x) = o_prev (order_at s x)"
  shows "is_fifo t bid li xs = is_fifo s bid li xs"
  using assms by (simp add: is_fifo_def)

lemma smin_exhausts: "q \<le>s r \<Longrightarrow> smin r q = q"
  by (auto simp: smin_def word_sle_eq word_sless_alt word_eq_iff_signed [where ?'a = int])

lemma fill_order_refresh:
  assumes exhausted: "quantity (order_at s cur) \<le>s remaining_qty"
    and reserve: "0 <s hidden_quantity (order_at s cur)"
  shows "fill_order oid buy level_idx current_best cur remaining_qty s =
     (let book_order = order_at s cur;
          trade_qty = quantity book_order;
          s1 = emit_trade (if buy then oid else order_id book_order)
                 (if buy then order_id book_order else oid) current_best trade_qty s;
          s2 = adjust_level_volume (\<not> buy) level_idx (- trade_qty) 0 (is_aon book_order) s1;
          s3 = set_order cur (book_order\<lparr>quantity := 0\<rparr>) s2;
          replenish = smin (if 0 <s peak_size book_order then peak_size book_order
                            else hidden_quantity book_order) (hidden_quantity book_order);
          s4 = remove_from_level_volume (\<not> buy) level_idx (book_order\<lparr>quantity := 0\<rparr>) s3;
          s5 = list_remove (\<not> buy) level_idx cur s4;
          s6 = set_order cur ((order_at s5 cur)\<lparr>quantity := replenish,
                 hidden_quantity := hidden_quantity book_order - replenish\<rparr>) s5;
          s7 = list_push_back (\<not> buy) level_idx cur s6;
          s8 = add_to_level_volume (\<not> buy) level_idx (order_at s7 cur) s7;
          bid = unat (order_id book_order)
      in (remaining_qty - trade_qty,
          if bid < order_index_size s8
          then s8\<lparr>order_index := (order_index s8)(bid := (order_index s8 bid)\<lparr>pool_idx := cur\<rparr>)\<rparr>
          else s8))"
  using reserve unfolding fill_order_def Let_def smin_exhausts [OF exhausted]
  by (simp del: list_push_back_level list_remove_level add_to_level_volume_effect
      remove_from_level_volume_effect adjust_level_volume_effect cong: if_cong)


lemma book_ice2_eq:
  "book_ice2 = book_ice
     \<lparr>bid_levels := (\<lambda>_. level_reset)(100 :=
        \<lparr>head = 0, tail = 1, count = 2, total_volume = 55, total_visible_volume = 15,
         total_aon_volume = 0, total_non_aon_volume = 55\<rparr>),
      order_pool := \<lparr>pool = (\<lambda>_. Order_zero)
         (1 := \<lparr>order_id = 2, price = 100, quantity = 5, hidden_quantity = 0, peak_size = 0,
                 o_next = NULL_INDEX, o_prev = 0, user_id_low = 0, flags = 1\<rparr>,
          0 := \<lparr>order_id = 1, price = 100, quantity = 10, hidden_quantity = 40, peak_size = 10,
                 o_next = 1, o_prev = NULL_INDEX, user_id_low = 7, flags = 1\<rparr>),
        pool_size = 4, free_indices = [3, 2]\<rparr>,
      order_index := (\<lambda>_. OrderLocation_zero)
         (1 := \<lparr>loc_price = 100, pool_idx = 0, loc_flags = 3\<rparr>,
          2 := \<lparr>loc_price = 100, pool_idx = 1, loc_flags = 3\<rparr>),
      active_order_count := 2, max_order_id := 2,
      batch_buffer := [OrderAccepted 0 1 True 100 10, OrderAccepted 0 2 True 100 5]\<rparr>"
  unfolding book_ice2_def book_ice_eq book0_eq
  by (simp add: eval_simps cong: Let_weak prod.case_cong_weak)


end
